theory Spec2Isabelle
  imports Complex_Main
begin

section \<open>Data model\<close>

text \<open>
  The dataclasses of \<^verbatim>\<open>hos_logic.py\<close>. Python floats are read as real numbers, a
  \<^verbatim>\<open>datetime\<close> as a real number of hours on a fixed time axis, and a
  \<^verbatim>\<open>timedelta(hours=h)\<close> as the real \<open>h\<close>, so that \<^verbatim>\<open>timedelta(minutes=30)\<close> is
  \<open>1/2\<close>. Leading underscores of method names are dropped. A Python \<^verbatim>\<open>str\<close> is a
  \<open>string\<close>, the bytes of its UTF-8 encoding.

  Arithmetic on floats is arithmetic on the reals, except in the fuel-stop planner, whose
  loop tests compare sums of floats: there every operation is rounded to a double.
\<close>

text \<open>
  What a call does besides returning: the exceptions that can leave
  \<^verbatim>\<open>calculate_route\<close>, and a loop that does not end.
\<close>

datatype failure = UnicodeEncodeError | ZeroDivisionError | Diverges

record Location =
  name :: string
  latitude :: real
  longitude :: real

record RoutePoint =
  location :: Location
  arrival_time :: real
  departure_time :: real
  status :: string
  miles_from_start :: real
  cumulative_driving_hours :: real
  cumulative_duty_hours :: real

record RouteDetails =
  total_distance :: real
  total_time :: real
  fueling_stops :: "Location list"
  duty_schedule :: "RoutePoint list"
  violations :: "string list"

text \<open>The fields of a \<^verbatim>\<open>HOSCalculator\<close> instance that the methods read or write.\<close>

record HOSCalculator =
  current_cycle_used :: real
  location_cache :: "string \<rightharpoonup> Location"

subsection \<open>FMCSA constants\<close>

definition MAX_DRIVING_HOURS :: real where "MAX_DRIVING_HOURS = 11"
definition MAX_DUTY_HOURS :: real where "MAX_DUTY_HOURS = 14"
definition MIN_OFF_DUTY_HOURS :: real where "MIN_OFF_DUTY_HOURS = 10"
definition BREAK_THRESHOLD :: real where "BREAK_THRESHOLD = 8"
definition BREAK_DURATION :: real where "BREAK_DURATION = 1 / 2"
definition FUELING_INTERVAL :: int where "FUELING_INTERVAL = 1000"
definition PICKUP_TIME :: real where "PICKUP_TIME = 1"
definition DROPOFF_TIME :: real where "DROPOFF_TIME = 1"
definition MAX_70_HOUR_WINDOW :: real where "MAX_70_HOUR_WINDOW = 70"

section \<open>Waypoint resolution\<close>

text \<open>
  \<^verbatim>\<open>geocode_location\<close> asks a web service. What the service answers is a parameter of the
  model: either the request fails (\<^verbatim>\<open>requests.get\<close>, \<^verbatim>\<open>raise_for_status\<close> or
  \<^verbatim>\<open>response.json\<close> raises), or it yields a list of entries. A failed request carries
  the text of its exception. The fields \<^verbatim>\<open>'lat'\<close> and \<^verbatim>\<open>'lon'\<close> of an entry are
  \<open>Inl\<close> with the text of the exception when the key is missing or \<^verbatim>\<open>float\<close> rejects
  its value, the cases in which \<^verbatim>\<open>float(data[0]['lat'])\<close> raises.
\<close>

record geo_entry =
  lat :: "string + real"
  lon :: "string + real"

datatype reply = RequestFailed string | Json "geo_entry list"

definition default_coordinates :: "real \<times> real" where
  "default_coordinates = (40.7128, - 74.0060)"

text \<open>
  The body of the \<^verbatim>\<open>try\<close> block: an exception is the value \<open>Inl\<close> of its text,
  \<^verbatim>\<open>str(e)\<close>.
\<close>

fun geocode_try :: "reply \<Rightarrow> string + real \<times> real" where
  "geocode_try (RequestFailed e) = Inl e"
| "geocode_try (Json []) = Inr default_coordinates"
| "geocode_try (Json (entry # entries)) =
     (case lat entry of
        Inl e \<Rightarrow> Inl e
      | Inr la \<Rightarrow> (case lon entry of Inl e \<Rightarrow> Inl e | Inr lo \<Rightarrow> Inr (la, lo)))"

text \<open>
  The \<^verbatim>\<open>except Exception\<close> handler prints a line and then returns the default pair.
  \<^verbatim>\<open>print\<close> encodes the line for \<^verbatim>\<open>sys.stdout\<close>; \<open>stdout\<close> says which texts the stream
  takes. On a text it does not take, \<^verbatim>\<open>print\<close> raises \<^verbatim>\<open>UnicodeEncodeError\<close> inside the
  handler, and the exception leaves the function.
\<close>

definition geocode_location ::
  "(string \<Rightarrow> reply) \<Rightarrow> (string \<Rightarrow> bool) \<Rightarrow> string \<Rightarrow> failure + real \<times> real" where
  "geocode_location net stdout location_str =
     (case geocode_try (net location_str) of
        Inl e \<Rightarrow>
          if stdout (''Geocoding failed for '' @ [CHR 0x27] @ location_str @ [CHR 0x27] @
                     '': '' @ e)
          then Inr default_coordinates
          else Inl UnicodeEncodeError
      | Inr coords \<Rightarrow> Inr coords)"

text \<open>
  A stream with the strict UTF-8 encoding, the default of Python 3, takes every text but
  those with a surrogate code point. In the byte model of \<^verbatim>\<open>str\<close> a surrogate is the
  three bytes of its generalised encoding: \<open>ED\<close>, then a byte from \<open>A0\<close> to \<open>BF\<close>, then one
  more.
\<close>

fun has_surrogate :: "string \<Rightarrow> bool" where
  "has_surrogate (a # b # cs) =
     ((of_char a = (0xED :: nat) \<and> (0xA0 :: nat) \<le> of_char b \<and> of_char b \<le> (0xBF :: nat)) \<or>
      has_surrogate (b # cs))"
| "has_surrogate cs = False"

definition utf8_stdout :: "string \<Rightarrow> bool" where
  "utf8_stdout line = (\<not> has_surrogate line)"

definition parse_location ::
  "(string \<Rightarrow> reply) \<Rightarrow> (string \<Rightarrow> bool) \<Rightarrow> HOSCalculator \<Rightarrow> string
     \<Rightarrow> failure + Location \<times> HOSCalculator" where
  "parse_location net stdout self location_str =
     (case location_cache self location_str of
        Some loc \<Rightarrow> Inr (loc, self)
      | None \<Rightarrow>
          (case geocode_location net stdout location_str of
             Inl raised \<Rightarrow> Inl raised
           | Inr (la, lo) \<Rightarrow>
               (let loc = \<lparr>name = location_str, latitude = la, longitude = lo\<rparr>
                in Inr (loc,
                     self\<lparr>location_cache := (location_cache self)(location_str \<mapsto> loc)\<rparr>))))"

section \<open>Geo math\<close>

definition radians :: "real \<Rightarrow> real" where
  "radians x = x * (pi / 180)"

text \<open>\<^verbatim>\<open>math.atan2(y, x)\<close> on the reals.\<close>

definition atan2 :: "real \<Rightarrow> real \<Rightarrow> real" where
  "atan2 y x =
     (if 0 < x then arctan (y / x)
      else if x < 0 then (if 0 \<le> y then arctan (y / x) + pi else arctan (y / x) - pi)
      else if 0 < y then pi / 2
      else if y < 0 then - (pi / 2)
      else 0)"

text \<open>
  The argument \<open>a\<close> of both square roots of the haversine formula. Over the reals it is
  at most 1, so \<^verbatim>\<open>math.sqrt(1 - a)\<close> is defined; a float \<open>a\<close> rounded above 1, for
  which \<^verbatim>\<open>math.sqrt\<close> raises \<^verbatim>\<open>ValueError\<close>, is not in the model.
\<close>

definition haversine_a :: "Location \<Rightarrow> Location \<Rightarrow> real" where
  "haversine_a loc1 loc2 =
     (let lat1_rad = radians (latitude loc1);
          lat2_rad = radians (latitude loc2);
          delta_lat = radians (latitude loc2 - latitude loc1);
          delta_lon = radians (longitude loc2 - longitude loc1)
      in (sin (delta_lat / 2))\<^sup>2 + cos lat1_rad * cos lat2_rad * (sin (delta_lon / 2))\<^sup>2)"

definition calculate_distance :: "Location \<Rightarrow> Location \<Rightarrow> real" where
  "calculate_distance loc1 loc2 =
     (let R = 3959;
          a = haversine_a loc1 loc2;
          c = 2 * atan2 (sqrt a) (sqrt (1 - a))
      in R * c)"

definition calculate_drive_time :: "real \<Rightarrow> real" where
  "calculate_drive_time distance = distance / 55"

text \<open>
  The name of an interpolated stop is an f-string with two \<^verbatim>\<open>:.2f\<close> fields; the
  rendering of a float with two decimals is the parameter \<open>fmt\<close>.
\<close>

definition interpolate_location ::
  "(real \<Rightarrow> string) \<Rightarrow> Location \<Rightarrow> Location \<Rightarrow> real \<Rightarrow> Location" where
  "interpolate_location fmt start end_loc progress =
     (let la = latitude start + (latitude end_loc - latitude start) * progress;
          lo = longitude start + (longitude end_loc - longitude start) * progress
      in \<lparr>name = ''Fuel Stop at '' @ fmt la @ '', '' @ fmt lo, latitude = la, longitude = lo\<rparr>)"

section \<open>Double arithmetic\<close>

text \<open>
  \<open>binary64 x\<close> is the double nearest to \<open>x\<close>, the even one of two equally near: with
  \<open>2\<^sup>e \<le> |x| < 2\<^sup>e\<^sup>+\<^sup>1\<close>, the doubles around \<open>x\<close> are the multiples of \<open>2\<^sup>e\<^sup>-\<^sup>5\<^sup>2\<close>, and of
  \<open>2\<^sup>-\<^sup>1\<^sup>0\<^sup>7\<^sup>4\<close> below the normal range. A Python operation on floats returns the \<open>binary64\<close> of
  the exact result. Results of magnitude \<open>2\<^sup>1\<^sup>0\<^sup>2\<^sup>4\<close> or more, infinite in Python, are outside
  the model.
\<close>

definition round_half_even :: "real \<Rightarrow> int" where
  "round_half_even y =
     (let f = \<lfloor>y\<rfloor>
      in if y - of_int f < 1 / 2 then f
         else if 1 / 2 < y - of_int f then f + 1
         else if even f then f
         else f + 1)"

definition binary64 :: "real \<Rightarrow> real" where
  "binary64 x =
     (if x = 0 then 0
      else (let e = max \<lfloor>log 2 \<bar>x\<bar>\<rfloor> (- 1022);
                q = 2 powi (e - 52)
            in q * of_int (round_half_even (x / q))))"

section \<open>Fuel-stop planner\<close>

text \<open>
  The two \<^verbatim>\<open>while\<close> loops of \<^verbatim>\<open>_calculate_fueling_stops\<close>, each with the loop
  variable \<^verbatim>\<open>miles_so_far\<close> and the list \<^verbatim>\<open>stops\<close> built so far.

  In the first loop \<^verbatim>\<open>miles_so_far\<close> is a Python \<^verbatim>\<open>int\<close>: the sum and the comparison
  with the float are exact, and the division converts the \<^verbatim>\<open>int\<close> to a double and divides
  doubles.
\<close>

lemma ceiling_interval_step:
  fixes d m :: real
  assumes "m + 1000 < d"
  shows "\<lceil>(d - (m + 1000)) / 1000\<rceil> < \<lceil>(d - m) / 1000\<rceil>"
proof -
  have "(d - (m + 1000)) / 1000 = (d - m) / 1000 - 1"
    by (simp add: field_simps)
  then have "\<lceil>(d - (m + 1000)) / 1000\<rceil> = \<lceil>(d - m) / 1000\<rceil> - 1"
    by (simp only: ceiling_diff_one)
  then show ?thesis
    by linarith
qed

function to_pickup_loop ::
  "(real \<Rightarrow> string) \<Rightarrow> Location \<Rightarrow> Location \<Rightarrow> real \<Rightarrow> int \<Rightarrow> Location list
     \<Rightarrow> failure + Location list" where
  "to_pickup_loop fmt current pickup distance_to_pickup miles_so_far stops =
     (if real_of_int (miles_so_far + FUELING_INTERVAL) < distance_to_pickup then
        (let miles_so_far' = miles_so_far + FUELING_INTERVAL
         in if distance_to_pickup = 0 then Inl ZeroDivisionError
            else
              (let progress =
                     binary64 (binary64 (real_of_int miles_so_far') / distance_to_pickup);
                   stop_location = interpolate_location fmt current pickup progress
               in to_pickup_loop fmt current pickup distance_to_pickup miles_so_far'
                    (stops @ [stop_location])))
      else Inr stops)"
  by pat_completeness auto
termination
  by (relation
      "measure (\<lambda>(fmt, current, pickup, d, m, stops). nat \<lceil>(d - real_of_int m) / 1000\<rceil>)")
    (simp_all add: FUELING_INTERVAL_def ceiling_interval_step)

text \<open>
  In the second loop \<^verbatim>\<open>miles_so_far\<close> starts as the float \<^verbatim>\<open>distance_to_pickup\<close>, so
  every sum and difference is one of doubles and is rounded. The loop need not end: a
  large \<^verbatim>\<open>miles_so_far\<close> is not changed by adding 1000. Not returning is the value
  \<open>None\<close>.
\<close>

partial_function (option) to_dropoff_loop ::
  "(real \<Rightarrow> string) \<Rightarrow> Location \<Rightarrow> Location \<Rightarrow> real \<Rightarrow> real \<Rightarrow> real \<Rightarrow> Location list
     \<Rightarrow> (failure + Location list) option" where
  "to_dropoff_loop fmt pickup dropoff distance_to_pickup distance_pickup_to_dropoff
       miles_so_far stops =
     (if binary64 (miles_so_far + real_of_int FUELING_INTERVAL)
           < binary64 (distance_to_pickup + distance_pickup_to_dropoff) then
        (let miles_so_far' = binary64 (miles_so_far + real_of_int FUELING_INTERVAL)
         in if distance_pickup_to_dropoff = 0 then Some (Inl ZeroDivisionError)
            else
              (let progress =
                     binary64 (binary64 (miles_so_far' - distance_to_pickup) /
                       distance_pickup_to_dropoff);
                   stop_location = interpolate_location fmt pickup dropoff progress
               in to_dropoff_loop fmt pickup dropoff distance_to_pickup
                    distance_pickup_to_dropoff miles_so_far' (stops @ [stop_location])))
      else Some (Inr stops))"

text \<open>
  The equations of the two loops rewrite a call into a term with a call, so they are used
  only where they are named.
\<close>

declare to_pickup_loop.simps [simp del]

text \<open>
  The planner hands the two distances to the loops. The loops are stated for any two
  lengths; the planner gives them the distances of \<open>calculate_distance\<close>, read over the
  reals.
\<close>

definition calculate_fueling_stops ::
  "(real \<Rightarrow> string) \<Rightarrow> Location \<Rightarrow> Location \<Rightarrow> Location \<Rightarrow> (failure + Location list) option" where
  "calculate_fueling_stops fmt current pickup dropoff =
     (let distance_to_pickup = calculate_distance current pickup;
          distance_pickup_to_dropoff = calculate_distance pickup dropoff
      in case to_pickup_loop fmt current pickup distance_to_pickup 0 [] of
           Inl raised \<Rightarrow> Some (Inl raised)
         | Inr stops \<Rightarrow>
             to_dropoff_loop fmt pickup dropoff distance_to_pickup distance_pickup_to_dropoff
               distance_to_pickup stops)"

subsection \<open>The plan as the specification words it\<close>

text \<open>
  For a leg of length \<open>L\<close>, the integers \<open>k \<ge> 1\<close> with \<open>k \<cdot> 1000 < L\<close>, in increasing
  order, and the stops at the interpolation fractions \<open>k \<cdot> 1000 / L\<close>, as doubles. No such
  \<open>k\<close> is above \<open>\<lfloor>L / 1000\<rfloor>\<close>.
\<close>

definition fuel_stop_multiples :: "real \<Rightarrow> nat list" where
  "fuel_stop_multiples L = filter (\<lambda>k. real k * 1000 < L) [1..<Suc (nat \<lfloor>L / 1000\<rfloor>)]"

definition planned_stops :: "(real \<Rightarrow> string) \<Rightarrow> Location \<Rightarrow> Location \<Rightarrow> real \<Rightarrow> Location list" where
  "planned_stops fmt a b L =
     map (\<lambda>k. interpolate_location fmt a b (binary64 (binary64 (real k * 1000) / L)))
       (fuel_stop_multiples L)"

section \<open>Duty schedule builder\<close>

text \<open>
  The running state of \<^verbatim>\<open>_add_driving_segment\<close>: the points emitted so far,
  \<^verbatim>\<open>current_time\<close>, \<^verbatim>\<open>current_miles\<close>, \<^verbatim>\<open>current_driving\<close> and
  \<^verbatim>\<open>current_duty\<close>.
\<close>

type_synonym leg_state = "RoutePoint list \<times> real \<times> real \<times> real \<times> real"

text \<open>The \<^verbatim>\<open>for stop in fueling_stops\<close> loop.\<close>

fun fueling_loop :: "Location \<Rightarrow> real \<Rightarrow> Location list \<Rightarrow> leg_state \<Rightarrow> leg_state" where
  "fueling_loop start distance [] st = st"
| "fueling_loop start distance (stop # stops)
       (segment_points, current_time, current_miles, current_driving, current_duty) =
     (if current_miles < distance then
        (let stop_distance = calculate_distance start stop;
             time_to_stop = calculate_drive_time stop_distance;
             arrival = current_time + time_to_stop;
             departure = arrival + 1 / 2
         in fueling_loop start distance stops
              (segment_points @
                 [\<lparr>location = stop,
                   arrival_time = arrival,
                   departure_time = departure,
                   status = ''On Duty'',
                   miles_from_start = current_miles + stop_distance,
                   cumulative_driving_hours = current_driving + time_to_stop,
                   cumulative_duty_hours = current_duty + time_to_stop + 1 / 2\<rparr>],
               departure,
               current_miles + stop_distance,
               current_driving + time_to_stop,
               current_duty + time_to_stop + 1 / 2))
      else fueling_loop start distance stops
             (segment_points, current_time, current_miles, current_driving, current_duty))"

text \<open>The break check on entry to a leg, giving the state the loop starts from.\<close>

definition break_check :: "Location \<Rightarrow> real \<Rightarrow> real \<Rightarrow> real \<Rightarrow> leg_state" where
  "break_check start start_time cumulative_driving cumulative_duty =
     (if BREAK_THRESHOLD \<le> cumulative_driving then
        (let break_start = start_time;
             break_end = break_start + BREAK_DURATION
         in ([\<lparr>location = start,
                arrival_time = break_start,
                departure_time = break_end,
                status = ''Off Duty'',
                miles_from_start = 0,
                cumulative_driving_hours = cumulative_driving,
                cumulative_duty_hours = cumulative_duty\<rparr>],
             break_end, 0, 0, cumulative_duty + BREAK_DURATION))
      else ([], start_time, 0, cumulative_driving, cumulative_duty))"

definition add_driving_segment ::
  "Location \<Rightarrow> Location \<Rightarrow> real \<Rightarrow> real \<Rightarrow> real \<Rightarrow> real \<Rightarrow> Location list \<Rightarrow> RoutePoint list" where
  "add_driving_segment start end_loc distance start_time cumulative_driving cumulative_duty stops =
     (let (segment_points, current_time, current_miles, current_driving, current_duty) =
            fueling_loop start distance stops
              (break_check start start_time cumulative_driving cumulative_duty);
          remaining_distance = distance - current_miles;
          remaining_time = calculate_drive_time remaining_distance;
          arrival = current_time + remaining_time
      in segment_points @
           [\<lparr>location = end_loc,
             arrival_time = arrival,
             departure_time = arrival,
             status = ''Driving'',
             miles_from_start = distance,
             cumulative_driving_hours = current_driving + remaining_time,
             cumulative_duty_hours = current_duty + remaining_time\<rparr>])"

text \<open>
  \<^verbatim>\<open>_generate_duty_schedule\<close>; \<open>now\<close> is the value of \<^verbatim>\<open>datetime.now()\<close>. The
  variables \<^verbatim>\<open>arrival_time\<close> and \<^verbatim>\<open>departure_time\<close> are assigned twice, in the
  order of the source.
\<close>

definition generate_duty_schedule ::
  "HOSCalculator \<Rightarrow> real \<Rightarrow> Location \<Rightarrow> Location \<Rightarrow> Location \<Rightarrow> real \<Rightarrow> real \<Rightarrow> Location list
     \<Rightarrow> RoutePoint list" where
  "generate_duty_schedule self now current pickup dropoff distance_to_pickup
       distance_pickup_to_dropoff stops =
     (let current_time = now;
          cumulative_driving = current_cycle_used self;
          cumulative_duty = current_cycle_used self;
          schedule =
            [\<lparr>location = current,
              arrival_time = current_time,
              departure_time = current_time,
              status = ''Off Duty'',
              miles_from_start = 0,
              cumulative_driving_hours = cumulative_driving,
              cumulative_duty_hours = cumulative_duty\<rparr>];
          drive_time = calculate_drive_time distance_to_pickup;
          arrival = current_time + drive_time;
          departure = arrival + PICKUP_TIME;
          schedule = schedule @
            add_driving_segment current pickup distance_to_pickup current_time
              cumulative_driving cumulative_duty stops;
          cumulative_driving = cumulative_driving + drive_time;
          cumulative_duty = cumulative_duty + (drive_time + PICKUP_TIME);
          schedule = schedule @
            [\<lparr>location = pickup,
              arrival_time = arrival,
              departure_time = departure,
              status = ''On Duty'',
              miles_from_start = distance_to_pickup,
              cumulative_driving_hours = cumulative_driving,
              cumulative_duty_hours = cumulative_duty\<rparr>];
          drive_time = calculate_drive_time distance_pickup_to_dropoff;
          arrival = departure + drive_time;
          departure = arrival + DROPOFF_TIME;
          schedule = schedule @
            add_driving_segment pickup dropoff distance_pickup_to_dropoff departure
              cumulative_driving cumulative_duty [];
          cumulative_driving = cumulative_driving + drive_time;
          cumulative_duty = cumulative_duty + (drive_time + DROPOFF_TIME);
          schedule = schedule @
            [\<lparr>location = dropoff,
              arrival_time = arrival,
              departure_time = departure,
              status = ''On Duty'',
              miles_from_start = distance_to_pickup + distance_pickup_to_dropoff,
              cumulative_driving_hours = cumulative_driving,
              cumulative_duty_hours = cumulative_duty\<rparr>]
      in if MAX_DRIVING_HOURS \<le> cumulative_driving \<or> MAX_DUTY_HOURS \<le> cumulative_duty then
           (let off_duty_start = departure;
                off_duty_end = off_duty_start + MIN_OFF_DUTY_HOURS
            in schedule @
                 [\<lparr>location = dropoff,
                   arrival_time = off_duty_start,
                   departure_time = off_duty_end,
                   status = ''Off Duty'',
                   miles_from_start = distance_to_pickup + distance_pickup_to_dropoff,
                   cumulative_driving_hours = 0,
                   cumulative_duty_hours = 0\<rparr>])
         else schedule)"

definition calculate_total_time :: "RoutePoint list \<Rightarrow> real" where
  "calculate_total_time schedule =
     (case schedule of
        [] \<Rightarrow> 0
      | p # ps \<Rightarrow> departure_time (last schedule) - arrival_time p)"

section \<open>Compliance checker\<close>

text \<open>The messages appended for one point, in the order of the three \<^verbatim>\<open>if\<close>s.\<close>

definition point_violations :: "RoutePoint \<Rightarrow> string list" where
  "point_violations point =
     (if MAX_DRIVING_HOURS < cumulative_driving_hours point
      then [''Violation: Exceeded 11-hour driving limit at '' @ name (location point)]
      else []) @
     (if MAX_DUTY_HOURS < cumulative_duty_hours point
      then [''Violation: Exceeded 14-hour duty limit at '' @ name (location point)]
      else []) @
     (if MAX_70_HOUR_WINDOW < cumulative_duty_hours point
      then [''Violation: Exceeded 70-hour/8-day limit at '' @ name (location point)]
      else [])"

text \<open>The \<^verbatim>\<open>for\<close> loop of \<^verbatim>\<open>_check_violations\<close>, with the list built so far.\<close>

fun check_violations_loop :: "RoutePoint list \<Rightarrow> string list \<Rightarrow> string list" where
  "check_violations_loop [] found = found"
| "check_violations_loop (point # points) found =
     check_violations_loop points (found @ point_violations point)"

definition check_violations :: "RoutePoint list \<Rightarrow> string list" where
  "check_violations schedule = check_violations_loop schedule []"

section \<open>Trip orchestrator\<close>

text \<open>
  \<^verbatim>\<open>calculate_route\<close> writes \<^verbatim>\<open>self.current_cycle_used\<close> and fills the location
  cache, so it returns the calculator next to the result. An exception of a callee leaves
  it, and it does not return when the planner does not.
\<close>

definition calculate_route ::
  "(string \<Rightarrow> reply) \<Rightarrow> (string \<Rightarrow> bool) \<Rightarrow> (real \<Rightarrow> string) \<Rightarrow> real \<Rightarrow> HOSCalculator
     \<Rightarrow> string \<Rightarrow> string \<Rightarrow> string \<Rightarrow> real \<Rightarrow> failure + RouteDetails \<times> HOSCalculator" where
  "calculate_route net stdout fmt now self current_location pickup_location dropoff_location
       cycle =
     (let self = self\<lparr>current_cycle_used := cycle\<rparr>
      in case parse_location net stdout self current_location of
           Inl raised \<Rightarrow> Inl raised
         | Inr (current_loc, self) \<Rightarrow>
      (case parse_location net stdout self pickup_location of
           Inl raised \<Rightarrow> Inl raised
         | Inr (pickup_loc, self) \<Rightarrow>
      (case parse_location net stdout self dropoff_location of
           Inl raised \<Rightarrow> Inl raised
         | Inr (dropoff_loc, self) \<Rightarrow>
      (let distance_to_pickup = calculate_distance current_loc pickup_loc;
           distance_pickup_to_dropoff = calculate_distance pickup_loc dropoff_loc
       in case calculate_fueling_stops fmt current_loc pickup_loc dropoff_loc of
            None \<Rightarrow> Inl Diverges
          | Some (Inl raised) \<Rightarrow> Inl raised
          | Some (Inr stops) \<Rightarrow>
              (let schedule =
                     generate_duty_schedule self now current_loc pickup_loc dropoff_loc
                       distance_to_pickup distance_pickup_to_dropoff stops
               in Inr (\<lparr>total_distance = distance_to_pickup + distance_pickup_to_dropoff,
                        total_time = calculate_total_time schedule,
                        fueling_stops = stops,
                        duty_schedule = schedule,
                        violations = check_violations schedule\<rparr>,
                       self))))))"

text \<open>\<^verbatim>\<open>calculate_hos_route\<close> runs \<^verbatim>\<open>calculate_route\<close> on a fresh calculator.\<close>

definition calculate_hos_route ::
  "(string \<Rightarrow> reply) \<Rightarrow> (string \<Rightarrow> bool) \<Rightarrow> (real \<Rightarrow> string) \<Rightarrow> real
     \<Rightarrow> string \<Rightarrow> string \<Rightarrow> string \<Rightarrow> real \<Rightarrow> failure + RouteDetails" where
  "calculate_hos_route net stdout fmt now current_location pickup_location dropoff_location
       cycle =
     (case calculate_route net stdout fmt now
             \<lparr>current_cycle_used = 0, location_cache = Map.empty\<rparr>
             current_location pickup_location dropoff_location cycle of
        Inl raised \<Rightarrow> Inl raised
      | Inr (details, calculator) \<Rightarrow> Inr details)"

section \<open>Properties of a timeline\<close>

text \<open>
  Every segment departs no earlier than it arrives, and arrives no earlier than the
  segment before it departs.
\<close>

fun timestamps_nondecreasing :: "RoutePoint list \<Rightarrow> bool" where
  "timestamps_nondecreasing [] = True"
| "timestamps_nondecreasing [p] = (arrival_time p \<le> departure_time p)"
| "timestamps_nondecreasing (p # q # ps) =
     (arrival_time p \<le> departure_time p \<and> departure_time p \<le> arrival_time q \<and>
      timestamps_nondecreasing (q # ps))"

fun miles_nondecreasing :: "RoutePoint list \<Rightarrow> bool" where
  "miles_nondecreasing [] = True"
| "miles_nondecreasing [p] = True"
| "miles_nondecreasing (p # q # ps) =
     (miles_from_start p \<le> miles_from_start q \<and> miles_nondecreasing (q # ps))"

section \<open>Example inputs\<close>

text \<open>
  A lookup service that knows two places on the equator, half a turn apart, and the
  locations \<^verbatim>\<open>_parse_location\<close> builds from its answers.
\<close>

abbreviation example_net :: "string \<Rightarrow> reply" where
  "example_net \<equiv>
     (\<lambda>s. if s = ''Null Island'' then Json [\<lparr>lat = Inr 0, lon = Inr 0\<rparr>]
          else Json [\<lparr>lat = Inr 0, lon = Inr 180\<rparr>])"

abbreviation null_island :: Location where
  "null_island \<equiv> \<lparr>name = ''Null Island'', latitude = 0, longitude = 0\<rparr>"

abbreviation antimeridian :: Location where
  "antimeridian \<equiv> \<lparr>name = ''Antimeridian'', latitude = 0, longitude = 180\<rparr>"

text \<open>The location of a place whose lookup fails.\<close>

abbreviation unresolved_chicago :: Location where
  "unresolved_chicago \<equiv> \<lparr>name = ''Chicago'', latitude = 40.7128, longitude = - 74.0060\<rparr>"

text \<open>Two places 110 miles of road apart, two hours at 55 miles per hour.\<close>

abbreviation springfield :: Location where
  "springfield \<equiv> \<lparr>name = ''Springfield'', latitude = 39.8, longitude = - 89.6\<rparr>"

abbreviation peoria :: Location where
  "peoria \<equiv> \<lparr>name = ''Peoria'', latitude = 40.7, longitude = - 89.6\<rparr>"

text \<open>A point past all three limits.\<close>

abbreviation overworked :: RoutePoint where
  "overworked \<equiv>
     \<lparr>location = peoria, arrival_time = 0, departure_time = 0, status = ''Driving'',
       miles_from_start = 110, cumulative_driving_hours = 12, cumulative_duty_hours = 75\<rparr>"

section \<open>Auxiliary facts\<close>

lemmas hos_constants =
  MAX_DRIVING_HOURS_def MAX_DUTY_HOURS_def MIN_OFF_DUTY_HOURS_def BREAK_THRESHOLD_def
  BREAK_DURATION_def FUELING_INTERVAL_def PICKUP_TIME_def DROPOFF_TIME_def
  MAX_70_HOUR_WINDOW_def

subsection \<open>Distances\<close>

lemma haversine_a_range: "0 \<le> haversine_a loc1 loc2 \<and> haversine_a loc1 loc2 \<le> 1"
proof -
  define x where "x = radians (latitude loc1)"
  define y where "y = radians (latitude loc2)"
  define s where "s = (sin (radians (longitude loc2 - longitude loc1) / 2))\<^sup>2"
  define C where "C = cos (x - y)"
  define D where "D = cos (x + y)"
  have dl: "radians (latitude loc2 - latitude loc1) / 2 = (y - x) / 2"
    by (simp add: radians_def x_def y_def left_diff_distrib)
  have s0: "0 \<le> s" and s1: "s \<le> 1"
    by (simp_all add: s_def abs_square_le_1)
  have C: "- 1 \<le> C" "C \<le> 1" and D: "- 1 \<le> D" "D \<le> 1"
    by (simp_all add: C_def D_def)
  have half: "2 * ((y - x) / 2) = y - x"
    by simp
  have "cos (y - x) = 1 - 2 * (sin ((y - x) / 2))\<^sup>2"
    using cos_double_sin [of "(y - x) / 2"] unfolding half .
  moreover have "cos (y - x) = C"
    using cos_minus [of "x - y"] by (simp add: C_def)
  ultimately have sq: "(sin ((y - x) / 2))\<^sup>2 = (1 - C) / 2"
    by argo
  have pr: "cos x * cos y = (C + D) / 2"
    by (simp add: C_def D_def cos_times_cos)
  have a: "haversine_a loc1 loc2 = (1 - C) / 2 + (C + D) / 2 * s"
    unfolding haversine_a_def Let_def dl sq
    using pr by (simp add: x_def y_def s_def)
  have "0 \<le> (1 - s) * (1 - C)" "0 \<le> (1 - s) * (1 + C)" "0 \<le> s * (1 - D)" "0 \<le> s * (1 + D)"
    using s0 s1 C D by simp_all
  then have "0 \<le> (1 - C) / 2 + (C + D) / 2 * s" "(1 - C) / 2 + (C + D) / 2 * s \<le> 1"
    by (simp_all add: algebra_simps add_divide_distrib [symmetric])
  then show ?thesis
    unfolding a by simp
qed

text \<open>
  Both square roots of \<^verbatim>\<open>_calculate_distance\<close> are taken of numbers in \<open>[0, 1]\<close>, so
  \<^verbatim>\<open>math.sqrt\<close> does not raise there, and a distance is never negative.
\<close>

lemma atan2_nonneg: "0 \<le> y \<Longrightarrow> 0 \<le> x \<Longrightarrow> 0 \<le> atan2 y x"
  by (simp add: atan2_def)

lemma calculate_distance_nonneg: "0 \<le> calculate_distance loc1 loc2"
  using haversine_a_range [of loc1 loc2]
  by (simp add: calculate_distance_def Let_def atan2_nonneg)

lemma calculate_distance_same: "calculate_distance loc loc = 0"
  by (simp add: calculate_distance_def haversine_a_def radians_def atan2_def)

lemma atan2_le_half_pi:
  assumes "0 \<le> y" and "0 \<le> x"
  shows "atan2 y x \<le> pi / 2"
proof (cases "0 < x")
  case True
  then show ?thesis
    using arctan_ubound [of "y / x"] by (simp add: atan2_def)
next
  case False
  then have "x = 0"
    using assms(2) by simp
  then show ?thesis
    using assms(1) by (simp add: atan2_def)
qed

lemma calculate_distance_le: "calculate_distance loc1 loc2 \<le> 3959 * pi"
  using haversine_a_range [of loc1 loc2]
    atan2_le_half_pi [of "sqrt (haversine_a loc1 loc2)" "sqrt (1 - haversine_a loc1 loc2)"]
  by (simp add: calculate_distance_def Let_def)

subsection \<open>Doubles\<close>



lemma round_half_even_bounds:
  "y - 1 / 2 \<le> of_int (round_half_even y) \<and> of_int (round_half_even y) \<le> y + 1 / 2"
proof -
  have f: "of_int \<lfloor>y\<rfloor> \<le> y" "y < of_int \<lfloor>y\<rfloor> + 1"
    by linarith+
  consider "y - of_int \<lfloor>y\<rfloor> < 1 / 2" | "1 / 2 < y - of_int \<lfloor>y\<rfloor>" | "y - of_int \<lfloor>y\<rfloor> = 1 / 2"
    by linarith
  then show ?thesis
  proof cases
    case 1
    then have r: "round_half_even y = \<lfloor>y\<rfloor>"
      by (simp add: round_half_even_def)
    show ?thesis
      unfolding r using f 1 by linarith
  next
    case 2
    then have r: "round_half_even y = \<lfloor>y\<rfloor> + 1"
      by (simp add: round_half_even_def)
    show ?thesis
      unfolding r using f 2 by simp linarith
  next
    case 3
    then have "round_half_even y = \<lfloor>y\<rfloor> \<or> round_half_even y = \<lfloor>y\<rfloor> + 1"
      by (simp add: round_half_even_def Let_def)
    then show ?thesis
    proof
      assume r: "round_half_even y = \<lfloor>y\<rfloor>"
      show ?thesis
        unfolding r using f 3 by linarith
    next
      assume r: "round_half_even y = \<lfloor>y\<rfloor> + 1"
      show ?thesis
        unfolding r using f 3 by simp
    qed
  qed
qed

lemma powr_2_int: "(2 :: real) powr real_of_int e = 2 powi e"
  by (simp add: powr_real_of_int')

lemma floor_log2_eq:
  assumes "2 powi e \<le> x" and "x < 2 powi (e + 1)"
  shows "\<lfloor>log 2 x\<rfloor> = e"
proof -
  have pos: "0 < x"
    using assms(1) zero_less_power_int [of "2 :: real" e] by linarith
  have "2 powr real_of_int e \<le> x" "x < 2 powr real_of_int (e + 1)"
    using assms unfolding powr_2_int by simp_all
  then have "2 powr real_of_int e \<le> x \<and> x < 2 powr (real_of_int e + 1)"
    by (simp add: add.commute)
  then show ?thesis
    using floor_log_eq_powr_iff [of x 2 e] pos by simp
qed

lemma floor_log2_bounds:
  assumes "0 < x"
  shows "2 powi \<lfloor>log 2 x\<rfloor> \<le> x \<and> x < 2 powi (\<lfloor>log 2 x\<rfloor> + 1)"
proof -
  have "2 powr real_of_int \<lfloor>log 2 x\<rfloor> \<le> x \<and> x < 2 powr (real_of_int \<lfloor>log 2 x\<rfloor> + 1)"
    using floor_log_eq_powr_iff [of x 2 "\<lfloor>log 2 x\<rfloor>"] assms by simp
  moreover have "real_of_int \<lfloor>log 2 x\<rfloor> + 1 = real_of_int (\<lfloor>log 2 x\<rfloor> + 1)"
    by simp
  ultimately show ?thesis
    unfolding powr_2_int by (simp only: powr_2_int)
qed

lemma binary64_unfold:
  assumes "2 powi e \<le> \<bar>x\<bar>" and "\<bar>x\<bar> < 2 powi (e + 1)" and "- 1022 \<le> e"
  shows "binary64 x = 2 powi (e - 52) * of_int (round_half_even (x / 2 powi (e - 52)))"
proof -
  have "0 < \<bar>x\<bar>"
    using assms(1) zero_less_power_int [of "2 :: real" e] by linarith
  then have "x \<noteq> 0"
    by simp
  moreover have "\<lfloor>log 2 \<bar>x\<bar>\<rfloor> = e"
    using assms(1,2) by (rule floor_log2_eq)
  ultimately show ?thesis
    using assms(3) by (simp add: binary64_def Let_def max_def)
qed

lemma power_int_2_less_imp:
  assumes "(2 :: real) powi a < 2 powi b"
  shows "a < b"
proof (rule ccontr)
  assume "\<not> a < b"
  then have "(2 :: real) powi b \<le> 2 powi a"
    by (intro power_int_increasing) simp_all
  then show False
    using assms by simp
qed





lemma binary64_error:
  assumes "1 \<le> x"
  shows "\<bar>binary64 x - x\<bar> \<le> x / 2 ^ 53"
proof -
  define e where "e = \<lfloor>log 2 x\<rfloor>"
  let ?q = "(2 :: real) powi (e - 52)"
  have b: "2 powi e \<le> x" "x < 2 powi (e + 1)"
    using floor_log2_bounds [of x] assms by (simp_all add: e_def)
  have "(2 :: real) powi 0 < 2 powi (e + 1)"
    using b(2) assms by simp
  then have "0 < e + 1"
    by (rule power_int_2_less_imp)
  then have e: "0 \<le> e"
    by simp
  have "binary64 x = ?q * of_int (round_half_even (x / ?q))"
    using binary64_unfold [of e x] b assms e by simp
  then have "binary64 x - x = ?q * (of_int (round_half_even (x / ?q)) - x / ?q)"
    by (simp add: algebra_simps)
  then have "\<bar>binary64 x - x\<bar> = ?q * \<bar>of_int (round_half_even (x / ?q)) - x / ?q\<bar>"
    by (simp add: abs_mult)
  also have "\<dots> \<le> ?q * (1 / 2)"
  proof (intro mult_left_mono)
    show "\<bar>of_int (round_half_even (x / ?q)) - x / ?q\<bar> \<le> 1 / 2"
      using round_half_even_bounds [of "x / ?q"] by linarith
  qed simp
  also have "\<dots> = 2 powi e / 2 ^ 53"
    by (subst power_int_diff) simp_all
  also have "\<dots> \<le> x / 2 ^ 53"
    using b(1) by (simp add: divide_right_mono)
  finally show ?thesis .
qed

lemma binary64_small:
  assumes "0 < x" and "x < 1"
  shows "\<bar>binary64 x - x\<bar> \<le> 1 / 2 ^ 53"
proof -
  define e where "e = max \<lfloor>log 2 \<bar>x\<bar>\<rfloor> (- 1022)"
  let ?q = "(2 :: real) powi (e - 52)"
  have "(2 :: real) powi \<lfloor>log 2 x\<rfloor> < 2 powi 0"
    using floor_log2_bounds [of x] assms by simp
  then have "\<lfloor>log 2 x\<rfloor> < 0"
    by (rule power_int_2_less_imp)
  moreover have "\<bar>x\<bar> = x"
    using assms(1) by simp
  ultimately have e: "e - 52 \<le> - 53"
    unfolding e_def by linarith
  have "binary64 x = ?q * of_int (round_half_even (x / ?q))"
    using assms(1) by (simp add: binary64_def Let_def e_def)
  then have "binary64 x - x = ?q * (of_int (round_half_even (x / ?q)) - x / ?q)"
    by (simp add: algebra_simps)
  then have "\<bar>binary64 x - x\<bar> = ?q * \<bar>of_int (round_half_even (x / ?q)) - x / ?q\<bar>"
    by (simp add: abs_mult)
  also have "\<dots> \<le> ?q * (1 / 2)"
  proof (intro mult_left_mono)
    show "\<bar>of_int (round_half_even (x / ?q)) - x / ?q\<bar> \<le> 1 / 2"
      using round_half_even_bounds [of "x / ?q"] by linarith
  qed simp
  also have "?q \<le> 2 powi (- 53)"
    using e by (intro power_int_increasing) simp_all
  finally show ?thesis
    by simp
qed

lemma binary64_upper:
  assumes "0 \<le> x"
  shows "binary64 x \<le> x + max 1 x / 2 ^ 53"
proof -
  consider "x = 0" | "0 < x" "x < 1" | "1 \<le> x"
    using assms by linarith
  then show ?thesis
  proof cases
    case 1
    then show ?thesis
      by (simp add: binary64_def)
  next
    case 2
    then have "\<bar>binary64 x - x\<bar> \<le> 1 / 2 ^ 53"
      by (rule binary64_small)
    then have "binary64 x \<le> x + 1 / 2 ^ 53"
      by linarith
    moreover have "max 1 x = 1"
      using 2 by simp
    ultimately show ?thesis
      by simp
  next
    case 3
    then have "\<bar>binary64 x - x\<bar> \<le> x / 2 ^ 53"
      by (rule binary64_error)
    then have "binary64 x \<le> x + x / 2 ^ 53"
      by linarith
    moreover have "max 1 x = x"
      using 3 by simp
    ultimately show ?thesis
      by simp
  qed
qed





subsection \<open>The fuel-stop planner\<close>

lemma fuel_stop_multiples_iff:
  "k \<in> set (fuel_stop_multiples L) \<longleftrightarrow> 1 \<le> k \<and> real k * 1000 < L"
proof -
  have "k < Suc (nat \<lfloor>L / 1000\<rfloor>)" if "real k * 1000 < L"
  proof -
    have "real k \<le> L / 1000"
      using that by (simp add: field_simps)
    then have "int k \<le> \<lfloor>L / 1000\<rfloor>"
      by (simp add: le_floor_iff)
    then show ?thesis
      by linarith
  qed
  then show ?thesis
    by (auto simp: fuel_stop_multiples_def)
qed

lemma planned_stops_short: "planned_stops fmt a b L = []" if "L \<le> 1000"
proof -
  have "\<not> real k * 1000 < L" if "1 \<le> k" for k
  proof -
    have "(1 :: real) \<le> real k"
      using that by simp
    then have "1000 \<le> real k * 1000"
      by linarith
    then show ?thesis
      using \<open>L \<le> 1000\<close> by linarith
  qed
  then have "k \<notin> set (fuel_stop_multiples L)" for k
    unfolding fuel_stop_multiples_iff by simp
  then have "set (fuel_stop_multiples L) = {}"
    by (intro equals0I) simp
  then have "fuel_stop_multiples L = []"
    by simp
  then show ?thesis
    by (simp add: planned_stops_def)
qed




lemma multiples_from_step:
  assumes "real (Suc n) * 1000 < L"
  shows "filter (\<lambda>k. real k * 1000 < L) [Suc n..<Suc (nat \<lfloor>L / 1000\<rfloor>)] =
         Suc n # filter (\<lambda>k. real k * 1000 < L) [Suc (Suc n)..<Suc (nat \<lfloor>L / 1000\<rfloor>)]"
proof -
  have "real (Suc n) \<le> L / 1000"
    using assms by (simp add: field_simps)
  then have "int (Suc n) \<le> \<lfloor>L / 1000\<rfloor>"
    by (simp add: le_floor_iff)
  then have "Suc n < Suc (nat \<lfloor>L / 1000\<rfloor>)"
    by linarith
  then show ?thesis
    using assms by (simp add: upt_conv_Cons)
qed

lemma multiples_from_stop:
  assumes "\<not> real (Suc n) * 1000 < L"
  shows "filter (\<lambda>k. real k * 1000 < L) [Suc n..<u] = []"
proof -
  have "\<not> real k * 1000 < L" if "Suc n \<le> k" for k
  proof -
    have "real (Suc n) * 1000 \<le> real k * 1000"
      using that by (simp del: of_nat_Suc)
    then show ?thesis
      using assms by linarith
  qed
  then show ?thesis
    by (simp add: filter_empty_conv)
qed

lemma to_pickup_loop_from:
  "miles_so_far = int n * 1000 \<Longrightarrow>
   to_pickup_loop fmt current pickup d miles_so_far stops =
     Inr (stops @
       map (\<lambda>k. interpolate_location fmt current pickup (binary64 (binary64 (real k * 1000) / d)))
         (filter (\<lambda>k. real k * 1000 < d) [Suc n..<Suc (nat \<lfloor>d / 1000\<rfloor>)]))"
proof (induction fmt current pickup d miles_so_far stops arbitrary: n
    rule: to_pickup_loop.induct)
  case (1 fmt current pickup d miles_so_far stops)
  let ?f = "\<lambda>k. interpolate_location fmt current pickup (binary64 (binary64 (real k * 1000) / d))"
  let ?P = "\<lambda>k. real k * 1000 < d"
  let ?u = "Suc (nat \<lfloor>d / 1000\<rfloor>)"
  have next_int: "miles_so_far + FUELING_INTERVAL = int (Suc n) * 1000"
    using "1.prems" by (simp add: FUELING_INTERVAL_def)
  have next_miles: "real_of_int (miles_so_far + FUELING_INTERVAL) = real (Suc n) * 1000"
    unfolding next_int by simp
  show ?case
  proof (cases "real_of_int (miles_so_far + FUELING_INTERVAL) < d")
    case True
    then have step: "real (Suc n) * 1000 < d"
      unfolding next_miles .
    then have nonzero: "d \<noteq> 0"
      by (smt (verit) mult_nonneg_nonneg of_nat_0_le_iff)
    have "to_pickup_loop fmt current pickup d miles_so_far stops =
        to_pickup_loop fmt current pickup d (miles_so_far + FUELING_INTERVAL)
          (stops @ [interpolate_location fmt current pickup
                      (binary64 (binary64 (real_of_int (miles_so_far + FUELING_INTERVAL)) / d))])"
      using True nonzero by (subst to_pickup_loop.simps) (simp add: Let_def)
    also have "\<dots> = Inr ((stops @ [interpolate_location fmt current pickup
                      (binary64 (binary64 (real_of_int (miles_so_far + FUELING_INTERVAL)) / d))]) @
        map ?f (filter ?P [Suc (Suc n)..<?u]))"
      using True nonzero next_int by (intro "1.IH") simp_all
    also have "\<dots> = Inr (stops @ map ?f (Suc n # filter ?P [Suc (Suc n)..<?u]))"
      unfolding next_miles by simp
    also have "\<dots> = Inr (stops @ map ?f (filter ?P [Suc n..<?u]))"
      unfolding multiples_from_step [OF step] ..
    finally show ?thesis .
  next
    case False
    then have stop: "\<not> real (Suc n) * 1000 < d"
      unfolding next_miles .
    have "to_pickup_loop fmt current pickup d miles_so_far stops = Inr stops"
      using False by (subst to_pickup_loop.simps) simp
    then show ?thesis
      unfolding multiples_from_stop [OF stop] by simp
  qed
qed

lemma to_pickup_loop_planned:
  "to_pickup_loop fmt current pickup d 0 [] = Inr (planned_stops fmt current pickup d)"
  using to_pickup_loop_from [of 0 0 fmt current pickup d "[]"]
  by (simp add: planned_stops_def fuel_stop_multiples_def)

lemma to_dropoff_loop_exact:
  assumes "0 \<le> d2"
    and total: "binary64 (d1 + d2) = d1 + d2"
    and marks: "\<And>k. real k * 1000 \<le> d2 + 1000 \<Longrightarrow>
                  binary64 (d1 + real k * 1000) = d1 + real k * 1000"
    and "miles_so_far = d1 + real n * 1000"
    and "n = 0 \<or> real n * 1000 < d2"
  shows "to_dropoff_loop fmt pickup dropoff d1 d2 miles_so_far stops =
     Some (Inr (stops @
       map (\<lambda>k. interpolate_location fmt pickup dropoff (binary64 (binary64 (real k * 1000) / d2)))
         (filter (\<lambda>k. real k * 1000 < d2) [Suc n..<Suc (nat \<lfloor>d2 / 1000\<rfloor>)])))"
  using assms(4,5)
proof (induction "Suc (nat \<lfloor>d2 / 1000\<rfloor>) - n" arbitrary: n miles_so_far stops rule: less_induct)
  case less
  let ?f = "\<lambda>k. interpolate_location fmt pickup dropoff (binary64 (binary64 (real k * 1000) / d2))"
  let ?P = "\<lambda>k. real k * 1000 < d2"
  let ?u = "Suc (nat \<lfloor>d2 / 1000\<rfloor>)"
  have "real (Suc n) * 1000 \<le> d2 + 1000"
    using less.prems(2) assms(1) by auto
  then have "binary64 (d1 + real (Suc n) * 1000) = d1 + real (Suc n) * 1000"
    by (rule marks)
  moreover have "miles_so_far + real_of_int FUELING_INTERVAL = d1 + real (Suc n) * 1000"
    using less.prems(1) by (simp add: FUELING_INTERVAL_def algebra_simps)
  ultimately have next_miles:
    "binary64 (miles_so_far + real_of_int FUELING_INTERVAL) = d1 + real (Suc n) * 1000"
    by simp
  show ?case
  proof (cases "real (Suc n) * 1000 < d2")
    case True
    then have nonzero: "d2 \<noteq> 0"
      by (smt (verit) mult_nonneg_nonneg of_nat_0_le_iff)
    have "real (Suc n) \<le> d2 / 1000"
      using True by (simp add: field_simps)
    then have "int (Suc n) \<le> \<lfloor>d2 / 1000\<rfloor>"
      by (simp add: le_floor_iff)
    then have smaller: "?u - Suc n < ?u - n"
      by linarith
    have "to_dropoff_loop fmt pickup dropoff d1 d2 miles_so_far stops =
        to_dropoff_loop fmt pickup dropoff d1 d2 (d1 + real (Suc n) * 1000)
          (stops @ [interpolate_location fmt pickup dropoff
                      (binary64 (binary64 (d1 + real (Suc n) * 1000 - d1) / d2))])"
      using True nonzero
      by (subst to_dropoff_loop.simps) (simp add: Let_def next_miles total del: of_nat_Suc)
    also have "\<dots> = Some (Inr ((stops @ [interpolate_location fmt pickup dropoff
                      (binary64 (binary64 (d1 + real (Suc n) * 1000 - d1) / d2))]) @
        map ?f (filter ?P [Suc (Suc n)..<?u])))"
      using smaller True by (intro less.hyps) simp_all
    also have "\<dots> = Some (Inr (stops @ map ?f (Suc n # filter ?P [Suc (Suc n)..<?u])))"
      by (simp del: of_nat_Suc)
    also have "\<dots> = Some (Inr (stops @ map ?f (filter ?P [Suc n..<?u])))"
      unfolding multiples_from_step [OF True] ..
    finally show ?thesis .
  next
    case False
    have "to_dropoff_loop fmt pickup dropoff d1 d2 miles_so_far stops = Some (Inr stops)"
      using False
      by (subst to_dropoff_loop.simps) (simp add: next_miles total del: of_nat_Suc)
    then show ?thesis
      unfolding multiples_from_stop [OF False] by simp
  qed
qed

lemma to_dropoff_loop_planned:
  assumes "0 \<le> d2"
    and "binary64 (d1 + d2) = d1 + d2"
    and "\<And>k. real k * 1000 \<le> d2 + 1000 \<Longrightarrow>
           binary64 (d1 + real k * 1000) = d1 + real k * 1000"
  shows "to_dropoff_loop fmt pickup dropoff d1 d2 d1 stops =
     Some (Inr (stops @ planned_stops fmt pickup dropoff d2))"
  using to_dropoff_loop_exact [OF assms, of d1 0 fmt pickup dropoff stops]
  by (simp add: planned_stops_def fuel_stop_multiples_def)

lemma to_dropoff_loop_zero_leg:
  assumes "0 \<le> d1" and "d1 \<le> 2 ^ 50"
  shows "to_dropoff_loop fmt pickup dropoff d1 0 d1 stops = Some (Inr stops)"
proof -
  have "\<bar>binary64 (d1 + 1000) - (d1 + 1000)\<bar> \<le> (d1 + 1000) / 2 ^ 53"
    using assms(1) by (intro binary64_error) simp
  moreover have "(d1 + 1000) / 2 ^ 53 \<le> 1"
    using assms(2) by simp
  moreover have "binary64 d1 \<le> d1 + max 1 d1 / 2 ^ 53"
    using assms(1) by (rule binary64_upper)
  moreover have "max 1 d1 / 2 ^ 53 \<le> 1"
    using assms(2) by (simp add: max_def)
  ultimately have "\<not> binary64 (d1 + 1000) < binary64 d1"
    by linarith
  then show ?thesis
    by (subst to_dropoff_loop.simps) (simp add: FUELING_INTERVAL_def)
qed

lemma to_dropoff_loop_returns:
  assumes "d2 \<noteq> 0" and "binary64 (d1 + d2) \<le> 2 ^ 50" and "0 \<le> miles_so_far"
  shows "\<exists>more. to_dropoff_loop fmt pickup dropoff d1 d2 miles_so_far stops =
           Some (Inr (stops @ more))"
  using assms(3)
proof (induction "nat \<lceil>binary64 (d1 + d2) - miles_so_far\<rceil>" arbitrary: miles_so_far stops
    rule: less_induct)
  case less
  let ?T = "binary64 (d1 + d2)"
  let ?x = "miles_so_far + 1000"
  show ?case
  proof (cases "binary64 ?x < ?T")
    case True
    define a where "a = ?x / 2 ^ 53"
    have "\<bar>binary64 ?x - ?x\<bar> \<le> ?x / 2 ^ 53"
      using less.prems by (intro binary64_error) simp
    then have err: "?x - a \<le> binary64 ?x"
      unfolding a_def abs_le_iff by linarith
    have "?x \<le> 2 ^ 51"
    proof (rule ccontr)
      assume "\<not> ?x \<le> 2 ^ 51"
      then have big: "2 ^ 51 < ?x"
        by simp
      have "a \<le> ?x / 2"
        unfolding a_def using less.prems by (intro divide_left_mono) simp_all
      then have "?x / 2 \<le> binary64 ?x"
        using err by argo
      then show False
        using big True assms(2) by simp
    qed
    then have "a \<le> 1"
      by (simp add: a_def)
    then have grows: "miles_so_far + 999 \<le> binary64 ?x"
      using err by argo
    then have "nat \<lceil>?T - binary64 ?x\<rceil> < nat \<lceil>?T - miles_so_far\<rceil>"
      using True by linarith
    moreover have "0 \<le> binary64 ?x"
      using grows less.prems by linarith
    ultimately obtain more where
      "to_dropoff_loop fmt pickup dropoff d1 d2 (binary64 ?x)
         (stops @ [interpolate_location fmt pickup dropoff
                     (binary64 (binary64 (binary64 ?x - d1) / d2))]) =
       Some (Inr ((stops @ [interpolate_location fmt pickup dropoff
                     (binary64 (binary64 (binary64 ?x - d1) / d2))]) @ more))"
      using less.hyps by blast
    then show ?thesis
      using True assms(1)
      by (subst to_dropoff_loop.simps) (simp add: Let_def FUELING_INTERVAL_def)
  next
    case False
    then show ?thesis
      by (subst to_dropoff_loop.simps) (simp add: FUELING_INTERVAL_def)
  qed
qed

lemma calculate_fueling_stops_returns:
  "\<exists>more. calculate_fueling_stops fmt current pickup dropoff =
     Some (Inr (planned_stops fmt current pickup (calculate_distance current pickup) @ more))"
proof -
  let ?d1 = "calculate_distance current pickup"
  let ?d2 = "calculate_distance pickup dropoff"
  have d1: "0 \<le> ?d1" "?d1 \<le> 15836" and d2: "0 \<le> ?d2" "?d2 \<le> 15836"
    using calculate_distance_nonneg [of current pickup] calculate_distance_le [of current pickup]
      calculate_distance_nonneg [of pickup dropoff] calculate_distance_le [of pickup dropoff]
      pi_less_4
    by linarith+
  have "binary64 (?d1 + ?d2) \<le> (?d1 + ?d2) + max 1 (?d1 + ?d2) / 2 ^ 53"
    using d1 d2 by (intro binary64_upper) simp
  moreover have "max 1 (?d1 + ?d2) / 2 ^ 53 \<le> 1"
    using d1 d2 by (simp add: max_def)
  moreover have "(31673 :: real) \<le> 2 ^ 50"
    by simp
  ultimately have total: "binary64 (?d1 + ?d2) \<le> 2 ^ 50"
    using d1 d2 by linarith
  have "\<exists>more. to_dropoff_loop fmt pickup dropoff ?d1 ?d2 ?d1 stops = Some (Inr (stops @ more))"
    for stops
  proof (cases "?d2 = 0")
    case True
    then show ?thesis
      using to_dropoff_loop_zero_leg [of ?d1 fmt pickup dropoff stops] d1 by simp
  next
    case False
    then show ?thesis
      using total d1 by (intro to_dropoff_loop_returns)
  qed
  then show ?thesis
    by (simp add: calculate_fueling_stops_def Let_def to_pickup_loop_planned)
qed

lemma calculate_fueling_stops_planned:
  assumes "0 \<le> calculate_distance pickup dropoff"
    and "binary64 (calculate_distance current pickup + calculate_distance pickup dropoff) =
         calculate_distance current pickup + calculate_distance pickup dropoff"
    and "\<And>k. real k * 1000 \<le> calculate_distance pickup dropoff + 1000 \<Longrightarrow>
           binary64 (calculate_distance current pickup + real k * 1000) =
           calculate_distance current pickup + real k * 1000"
  shows "calculate_fueling_stops fmt current pickup dropoff =
     Some (Inr (planned_stops fmt current pickup (calculate_distance current pickup) @
                planned_stops fmt pickup dropoff (calculate_distance pickup dropoff)))"
  using to_dropoff_loop_planned [OF assms]
  by (simp add: calculate_fueling_stops_def Let_def to_pickup_loop_planned)

subsection \<open>The schedule builder\<close>

text \<open>An invariant of the running state holds after the loop over the fuel stops.\<close>

lemma fueling_loop_invariant:
  assumes "I st"
    and "\<And>segment_points current_time current_miles current_driving current_duty stop.
           I (segment_points, current_time, current_miles, current_driving, current_duty) \<Longrightarrow>
           stop \<in> set stops \<Longrightarrow> current_miles < distance \<Longrightarrow>
           I (segment_points @
                [\<lparr>location = stop,
                  arrival_time = current_time + calculate_distance start stop / 55,
                  departure_time = current_time + calculate_distance start stop / 55 + 1 / 2,
                  status = ''On Duty'',
                  miles_from_start = current_miles + calculate_distance start stop,
                  cumulative_driving_hours = current_driving + calculate_distance start stop / 55,
                  cumulative_duty_hours =
                    current_duty + calculate_distance start stop / 55 + 1 / 2\<rparr>],
              current_time + calculate_distance start stop / 55 + 1 / 2,
              current_miles + calculate_distance start stop,
              current_driving + calculate_distance start stop / 55,
              current_duty + calculate_distance start stop / 55 + 1 / 2)"
  shows "I (fueling_loop start distance stops st)"
  using assms
proof (induction stops arbitrary: st)
  case Nil
  then show ?case by simp
next
  case (Cons stop stops)
  obtain segment_points current_time current_miles current_driving current_duty
    where st: "st = (segment_points, current_time, current_miles, current_driving, current_duty)"
    by (cases st)
  have start: "I (segment_points, current_time, current_miles, current_driving, current_duty)"
    using Cons.prems(1) by (simp add: st)
  have rest: "I (fueling_loop start distance stops st')" if "I st'" for st'
    using that
  proof (rule Cons.IH)
    fix segment_points current_time current_miles current_driving current_duty stop'
    assume "I (segment_points, current_time, current_miles, current_driving, current_duty)"
      and "stop' \<in> set stops" and "current_miles < distance"
    then show "I (segment_points @
                [\<lparr>location = stop',
                  arrival_time = current_time + calculate_distance start stop' / 55,
                  departure_time = current_time + calculate_distance start stop' / 55 + 1 / 2,
                  status = ''On Duty'',
                  miles_from_start = current_miles + calculate_distance start stop',
                  cumulative_driving_hours = current_driving + calculate_distance start stop' / 55,
                  cumulative_duty_hours =
                    current_duty + calculate_distance start stop' / 55 + 1 / 2\<rparr>],
              current_time + calculate_distance start stop' / 55 + 1 / 2,
              current_miles + calculate_distance start stop',
              current_driving + calculate_distance start stop' / 55,
              current_duty + calculate_distance start stop' / 55 + 1 / 2)"
      by (intro Cons.prems(2)) simp_all
  qed
  show ?case
  proof (cases "current_miles < distance")
    case True
    have "I (segment_points @
                [\<lparr>location = stop,
                  arrival_time = current_time + calculate_distance start stop / 55,
                  departure_time = current_time + calculate_distance start stop / 55 + 1 / 2,
                  status = ''On Duty'',
                  miles_from_start = current_miles + calculate_distance start stop,
                  cumulative_driving_hours = current_driving + calculate_distance start stop / 55,
                  cumulative_duty_hours =
                    current_duty + calculate_distance start stop / 55 + 1 / 2\<rparr>],
              current_time + calculate_distance start stop / 55 + 1 / 2,
              current_miles + calculate_distance start stop,
              current_driving + calculate_distance start stop / 55,
              current_duty + calculate_distance start stop / 55 + 1 / 2)"
      using start True by (intro Cons.prems(2)) simp_all
    then show ?thesis
      using True by (simp add: st Let_def calculate_drive_time_def rest)
  next
    case False
    then show ?thesis
      using start by (simp add: st rest)
  qed
qed

lemma add_driving_segment_unfold:
  assumes "fueling_loop start distance stops
             (break_check start start_time cumulative_driving cumulative_duty) =
           (segment_points, current_time, current_miles, current_driving, current_duty)"
  shows "add_driving_segment start end_loc distance start_time cumulative_driving
           cumulative_duty stops =
         segment_points @
           [\<lparr>location = end_loc,
             arrival_time = current_time + (distance - current_miles) / 55,
             departure_time = current_time + (distance - current_miles) / 55,
             status = ''Driving'',
             miles_from_start = distance,
             cumulative_driving_hours = current_driving + (distance - current_miles) / 55,
             cumulative_duty_hours = current_duty + (distance - current_miles) / 55\<rparr>]"
  by (simp add: add_driving_segment_def assms Let_def calculate_drive_time_def)

lemma generate_duty_schedule_unfold:
  "generate_duty_schedule self now current pickup dropoff d1 d2 stops =
     \<lparr>location = current, arrival_time = now, departure_time = now, status = ''Off Duty'',
       miles_from_start = 0, cumulative_driving_hours = current_cycle_used self,
       cumulative_duty_hours = current_cycle_used self\<rparr> #
     add_driving_segment current pickup d1 now (current_cycle_used self)
       (current_cycle_used self) stops @
     \<lparr>location = pickup, arrival_time = now + d1 / 55, departure_time = now + d1 / 55 + 1,
       status = ''On Duty'', miles_from_start = d1,
       cumulative_driving_hours = current_cycle_used self + d1 / 55,
       cumulative_duty_hours = current_cycle_used self + d1 / 55 + 1\<rparr> #
     add_driving_segment pickup dropoff d2 (now + d1 / 55 + 1 + d2 / 55 + 1)
       (current_cycle_used self + d1 / 55) (current_cycle_used self + d1 / 55 + 1) [] @
     \<lparr>location = dropoff, arrival_time = now + d1 / 55 + 1 + d2 / 55,
       departure_time = now + d1 / 55 + 1 + d2 / 55 + 1, status = ''On Duty'',
       miles_from_start = d1 + d2,
       cumulative_driving_hours = current_cycle_used self + d1 / 55 + d2 / 55,
       cumulative_duty_hours = current_cycle_used self + d1 / 55 + 1 + d2 / 55 + 1\<rparr> #
     (if 11 \<le> current_cycle_used self + d1 / 55 + d2 / 55 \<or>
         14 \<le> current_cycle_used self + d1 / 55 + 1 + d2 / 55 + 1
      then [\<lparr>location = dropoff, arrival_time = now + d1 / 55 + 1 + d2 / 55 + 1,
              departure_time = now + d1 / 55 + 1 + d2 / 55 + 1 + 10, status = ''Off Duty'',
              miles_from_start = d1 + d2, cumulative_driving_hours = 0,
              cumulative_duty_hours = 0\<rparr>]
      else [])"
  by (simp add: generate_duty_schedule_def Let_def hos_constants calculate_drive_time_def
      add.assoc)

lemma add_driving_segment_status:
  "\<forall>p \<in> set (add_driving_segment start end_loc distance start_time cumulative_driving
       cumulative_duty stops).
     status p = ''Off Duty'' \<or> status p = ''On Duty'' \<or> status p = ''Driving''"
proof -
  let ?I = "\<lambda>st :: leg_state.
    \<forall>p \<in> set (fst st). status p = ''Off Duty'' \<or> status p = ''On Duty'' \<or> status p = ''Driving''"
  obtain segment_points current_time current_miles current_driving current_duty where
    loop: "fueling_loop start distance stops
             (break_check start start_time cumulative_driving cumulative_duty) =
           (segment_points, current_time, current_miles, current_driving, current_duty)"
    by (cases "fueling_loop start distance stops
             (break_check start start_time cumulative_driving cumulative_duty)")
  have "?I (fueling_loop start distance stops
              (break_check start start_time cumulative_driving cumulative_duty))"
    by (rule fueling_loop_invariant) (auto simp: break_check_def Let_def)
  then show ?thesis
    by (auto simp: add_driving_segment_unfold [OF loop] loop)
qed

lemma generate_duty_schedule_status:
  "\<forall>p \<in> set (generate_duty_schedule self now current pickup dropoff distance_to_pickup
       distance_pickup_to_dropoff stops).
     status p = ''Off Duty'' \<or> status p = ''On Duty'' \<or> status p = ''Driving''"
  by (simp add: generate_duty_schedule_unfold ball_Un add_driving_segment_status)

lemma add_driving_segment_driving_le_duty:
  assumes "cumulative_driving \<le> cumulative_duty"
  shows "\<forall>p \<in> set (add_driving_segment start end_loc distance start_time cumulative_driving
       cumulative_duty stops).
     cumulative_driving_hours p \<le> cumulative_duty_hours p"
proof -
  let ?I = "\<lambda>(segment_points, current_time, current_miles, current_driving, current_duty).
    (\<forall>p \<in> set segment_points. cumulative_driving_hours p \<le> cumulative_duty_hours p) \<and>
    (current_driving :: real) \<le> current_duty"
  obtain segment_points current_time current_miles current_driving current_duty where
    loop: "fueling_loop start distance stops
             (break_check start start_time cumulative_driving cumulative_duty) =
           (segment_points, current_time, current_miles, current_driving, current_duty)"
    by (cases "fueling_loop start distance stops
             (break_check start start_time cumulative_driving cumulative_duty)")
  have "?I (fueling_loop start distance stops
              (break_check start start_time cumulative_driving cumulative_duty))"
    by (rule fueling_loop_invariant)
      (use assms in \<open>auto simp: break_check_def Let_def hos_constants\<close>)
  then show ?thesis
    by (auto simp: add_driving_segment_unfold [OF loop] loop)
qed

lemma generate_duty_schedule_driving_le_duty:
  "\<forall>p \<in> set (generate_duty_schedule self now current pickup dropoff distance_to_pickup
       distance_pickup_to_dropoff stops).
     cumulative_driving_hours p \<le> cumulative_duty_hours p"
proof -
  have "\<forall>p \<in> set (add_driving_segment current pickup distance_to_pickup now
       (current_cycle_used self) (current_cycle_used self) stops).
     cumulative_driving_hours p \<le> cumulative_duty_hours p"
    by (rule add_driving_segment_driving_le_duty) simp
  moreover have "\<forall>p \<in> set (add_driving_segment pickup dropoff distance_pickup_to_dropoff
       (now + distance_to_pickup / 55 + 1 + distance_pickup_to_dropoff / 55 + 1)
       (current_cycle_used self + distance_to_pickup / 55)
       (current_cycle_used self + distance_to_pickup / 55 + 1) []).
     cumulative_driving_hours p \<le> cumulative_duty_hours p"
    by (rule add_driving_segment_driving_le_duty) simp
  ultimately show ?thesis
    unfolding generate_duty_schedule_unfold by (simp add: ball_Un)
qed

lemma fueling_loop_prefix:
  "fueling_loop start distance stops
     (pre @ segment_points, current_time, current_miles, current_driving, current_duty) =
   (case fueling_loop start distance stops
           (segment_points, current_time, current_miles, current_driving, current_duty) of
      (segment_points', st) \<Rightarrow> (pre @ segment_points', st))"
  by (induction stops arbitrary: segment_points current_time current_miles current_driving
      current_duty) (simp_all add: Let_def)

lemma add_driving_segment_break:
  assumes "8 \<le> cumulative_driving"
  shows "add_driving_segment start end_loc distance start_time cumulative_driving
           cumulative_duty stops =
         \<lparr>location = start, arrival_time = start_time, departure_time = start_time + 1 / 2,
           status = ''Off Duty'', miles_from_start = 0,
           cumulative_driving_hours = cumulative_driving,
           cumulative_duty_hours = cumulative_duty\<rparr> #
         add_driving_segment start end_loc distance (start_time + 1 / 2) 0
           (cumulative_duty + 1 / 2) stops"
proof -
  let ?brk = "\<lparr>location = start, arrival_time = start_time, departure_time = start_time + 1 / 2,
           status = ''Off Duty'', miles_from_start = 0,
           cumulative_driving_hours = cumulative_driving,
           cumulative_duty_hours = cumulative_duty\<rparr>"
  have 1: "break_check start start_time cumulative_driving cumulative_duty =
        ([?brk] @ [], start_time + 1 / 2, 0, 0, cumulative_duty + 1 / 2)"
    using assms by (simp add: break_check_def Let_def hos_constants)
  have 2: "break_check start (start_time + 1 / 2) 0 (cumulative_duty + 1 / 2) =
        ([], start_time + 1 / 2, 0, 0, cumulative_duty + 1 / 2)"
    by (simp add: break_check_def hos_constants)
  show ?thesis
    unfolding add_driving_segment_def 1 2 fueling_loop_prefix
    by (simp add: Let_def split: prod.splits)
qed

lemma add_driving_segment_no_break:
  assumes "cumulative_driving < 8"
  shows "\<forall>p \<in> set (add_driving_segment start end_loc distance start_time cumulative_driving
       cumulative_duty stops). status p \<noteq> ''Off Duty''"
proof -
  let ?I = "\<lambda>st :: leg_state. \<forall>p \<in> set (fst st). status p \<noteq> ''Off Duty''"
  obtain segment_points current_time current_miles current_driving current_duty where
    loop: "fueling_loop start distance stops
             (break_check start start_time cumulative_driving cumulative_duty) =
           (segment_points, current_time, current_miles, current_driving, current_duty)"
    by (cases "fueling_loop start distance stops
             (break_check start start_time cumulative_driving cumulative_duty)")
  have "?I (fueling_loop start distance stops
              (break_check start start_time cumulative_driving cumulative_duty))"
    by (rule fueling_loop_invariant)
      (use assms in \<open>auto simp: break_check_def Let_def hos_constants\<close>)
  then show ?thesis
    by (auto simp: add_driving_segment_unfold [OF loop] loop)
qed

lemma add_driving_segment_duration:
  "\<forall>p \<in> set (add_driving_segment start end_loc distance start_time cumulative_driving
       cumulative_duty stops). departure_time p - arrival_time p \<le> 1 / 2"
proof -
  let ?I = "\<lambda>st :: leg_state. \<forall>p \<in> set (fst st). departure_time p - arrival_time p \<le> 1 / 2"
  obtain segment_points current_time current_miles current_driving current_duty where
    loop: "fueling_loop start distance stops
             (break_check start start_time cumulative_driving cumulative_duty) =
           (segment_points, current_time, current_miles, current_driving, current_duty)"
    by (cases "fueling_loop start distance stops
             (break_check start start_time cumulative_driving cumulative_duty)")
  have "?I (fueling_loop start distance stops
              (break_check start start_time cumulative_driving cumulative_duty))"
    by (rule fueling_loop_invariant) (auto simp: break_check_def Let_def hos_constants)
  then show ?thesis
    by (auto simp: add_driving_segment_unfold [OF loop] loop)
qed

lemma add_driving_segment_arrival:
  "\<exists>before p.
     add_driving_segment start end_loc distance start_time cumulative_driving cumulative_duty
       stops = before @ [p] \<and>
     (\<forall>q \<in> set before. status q \<noteq> ''Driving'') \<and>
     status p = ''Driving'' \<and> location p = end_loc \<and>
     (if 8 \<le> cumulative_driving then cumulative_duty + 1 / 2 else cumulative_duty) +
       distance / 55 \<le> cumulative_duty_hours p"
proof -
  let ?duty = "if 8 \<le> cumulative_driving then cumulative_duty + 1 / 2 else cumulative_duty"
  let ?I = "\<lambda>(segment_points, current_time, current_miles, current_driving, current_duty).
    (\<forall>q \<in> set segment_points. status q \<noteq> ''Driving'') \<and>
    ?duty + current_miles / 55 \<le> (current_duty :: real)"
  obtain segment_points current_time current_miles current_driving current_duty where
    loop: "fueling_loop start distance stops
             (break_check start start_time cumulative_driving cumulative_duty) =
           (segment_points, current_time, current_miles, current_driving, current_duty)"
    by (cases "fueling_loop start distance stops
             (break_check start start_time cumulative_driving cumulative_duty)")
  have "?I (fueling_loop start distance stops
              (break_check start start_time cumulative_driving cumulative_duty))"
    by (rule fueling_loop_invariant)
      (auto simp: break_check_def Let_def hos_constants add_divide_distrib)
  then have "(\<forall>q \<in> set segment_points. status q \<noteq> ''Driving'') \<and>
      ?duty + current_miles / 55 \<le> current_duty"
    by (simp add: loop)
  then show ?thesis
    unfolding add_driving_segment_unfold [OF loop]
    by (intro exI [of _ segment_points] exI conjI refl)
      (auto simp: diff_divide_distrib split: if_splits)
qed


subsection \<open>The compliance checker\<close>

lemma check_violations_loop_concat:
  "check_violations_loop schedule found = found @ concat (map point_violations schedule)"
  by (induction schedule arbitrary: found) simp_all

lemma check_violations_concat:
  "check_violations schedule = concat (map point_violations schedule)"
  by (simp add: check_violations_def check_violations_loop_concat)

lemma point_violations_70:
  "70 < cumulative_duty_hours p \<Longrightarrow> p \<in> set schedule \<Longrightarrow>
   ''Violation: Exceeded 70-hour/8-day limit at '' @ name (location p)
     \<in> set (check_violations schedule)"
  by (auto simp: check_violations_concat point_violations_def hos_constants)

subsection \<open>The trip orchestrator\<close>

lemma parse_location_cycle:
  "parse_location net stdout self location_str = Inr (loc, self') \<Longrightarrow>
   current_cycle_used self' = current_cycle_used self"
  by (auto simp: parse_location_def Let_def split: option.splits sum.splits prod.splits)

lemma calculate_route_cycle:
  assumes "parse_location net stdout (self\<lparr>current_cycle_used := cycle\<rparr>) a = Inr (current, s1)"
    and "parse_location net stdout s1 b = Inr (pickup, s2)"
    and "parse_location net stdout s2 c = Inr (dropoff, s3)"
  shows "current_cycle_used s3 = cycle"
  using assms(1) [THEN parse_location_cycle] assms(2) [THEN parse_location_cycle]
    assms(3) [THEN parse_location_cycle]
  by simp

lemma calculate_route_unfold:
  assumes "parse_location net stdout (self\<lparr>current_cycle_used := cycle\<rparr>) a = Inr (current, s1)"
    and "parse_location net stdout s1 b = Inr (pickup, s2)"
    and "parse_location net stdout s2 c = Inr (dropoff, s3)"
    and "calculate_fueling_stops fmt current pickup dropoff = Some (Inr stops)"
  shows "calculate_route net stdout fmt now self a b c cycle =
     Inr (\<lparr>total_distance = calculate_distance current pickup + calculate_distance pickup dropoff,
           total_time =
             calculate_total_time
               (generate_duty_schedule s3 now current pickup dropoff
                  (calculate_distance current pickup) (calculate_distance pickup dropoff) stops),
           fueling_stops = stops,
           duty_schedule =
             generate_duty_schedule s3 now current pickup dropoff
               (calculate_distance current pickup) (calculate_distance pickup dropoff) stops,
           violations =
             check_violations
               (generate_duty_schedule s3 now current pickup dropoff
                  (calculate_distance current pickup) (calculate_distance pickup dropoff)
                  stops)\<rparr>,
          s3)"
  using assms by (simp add: calculate_route_def Let_def)

text \<open>Once the three places are resolved, the call returns: the planner's loops end.\<close>

lemma calculate_route_returns:
  assumes "parse_location net stdout (self\<lparr>current_cycle_used := cycle\<rparr>) a = Inr (current, s1)"
    and "parse_location net stdout s1 b = Inr (pickup, s2)"
    and "parse_location net stdout s2 c = Inr (dropoff, s3)"
  shows "\<exists>stops.
     calculate_route net stdout fmt now self a b c cycle =
     Inr (\<lparr>total_distance = calculate_distance current pickup + calculate_distance pickup dropoff,
           total_time =
             calculate_total_time
               (generate_duty_schedule s3 now current pickup dropoff
                  (calculate_distance current pickup) (calculate_distance pickup dropoff) stops),
           fueling_stops = stops,
           duty_schedule =
             generate_duty_schedule s3 now current pickup dropoff
               (calculate_distance current pickup) (calculate_distance pickup dropoff) stops,
           violations =
             check_violations
               (generate_duty_schedule s3 now current pickup dropoff
                  (calculate_distance current pickup) (calculate_distance pickup dropoff)
                  stops)\<rparr>,
          s3)"
proof -
  obtain stops where "calculate_fueling_stops fmt current pickup dropoff = Some (Inr stops)"
    using calculate_fueling_stops_returns by blast
  then show ?thesis
    using calculate_route_unfold [OF assms] by blast
qed

text \<open>What a returned result is made of.\<close>

lemma calculate_route_schedule:
  assumes "calculate_route net stdout fmt now self a b c cycle = Inr (r, self')"
  shows "\<exists>s current pickup dropoff.
     current_cycle_used s = cycle \<and>
     duty_schedule r =
       generate_duty_schedule s now current pickup dropoff (calculate_distance current pickup)
         (calculate_distance pickup dropoff) (fueling_stops r) \<and>
     violations r = check_violations (duty_schedule r)"
proof -
  obtain current s1 where
    1: "parse_location net stdout (self\<lparr>current_cycle_used := cycle\<rparr>) a = Inr (current, s1)"
    using assms
    by (cases "parse_location net stdout (self\<lparr>current_cycle_used := cycle\<rparr>) a")
      (auto simp: calculate_route_def Let_def)
  obtain pickup s2 where 2: "parse_location net stdout s1 b = Inr (pickup, s2)"
    using assms 1
    by (cases "parse_location net stdout s1 b") (auto simp: calculate_route_def Let_def)
  obtain dropoff s3 where 3: "parse_location net stdout s2 c = Inr (dropoff, s3)"
    using assms 1 2
    by (cases "parse_location net stdout s2 c") (auto simp: calculate_route_def Let_def)
  obtain stops where 4: "calculate_fueling_stops fmt current pickup dropoff = Some (Inr stops)"
    using calculate_fueling_stops_returns by blast
  have "r = fst (r, self')"
    by simp
  also have "(r, self') = projr (calculate_route net stdout fmt now self a b c cycle)"
    using assms by simp
  finally show ?thesis
    unfolding calculate_route_unfold [OF 1 2 3 4, of now]
    using calculate_route_cycle [OF 1 2 3] by auto
qed

subsection \<open>Evaluation at simple inputs\<close>

lemma calculate_fueling_stops_same: "calculate_fueling_stops fmt loc loc loc = Some (Inr [])"
  using to_dropoff_loop_zero_leg [of 0 fmt loc loc "[]"]
  by (simp add: calculate_fueling_stops_def calculate_distance_same to_pickup_loop_planned
      planned_stops_short)

lemma parse_location_failed:
  assumes "stdout (''Geocoding failed for '' @ [CHR 0x27] @ place @ [CHR 0x27] @ '': '' @ e)"
  shows "parse_location (\<lambda>s. RequestFailed e) stdout
     (\<lparr>current_cycle_used = 0, location_cache = Map.empty\<rparr>\<lparr>current_cycle_used := c\<rparr>) place =
   Inr (\<lparr>name = place, latitude = 40.7128, longitude = - 74.0060\<rparr>,
        \<lparr>current_cycle_used = c,
          location_cache =
            [place \<mapsto> \<lparr>name = place, latitude = 40.7128, longitude = - 74.0060\<rparr>]\<rparr>)"
  using assms
  by (simp add: parse_location_def geocode_location_def default_coordinates_def Let_def)

lemma parse_location_cached:
  "location_cache self place = Some loc \<Longrightarrow>
   parse_location net stdout self place = Inr (loc, self)"
  by (simp add: parse_location_def)

lemma same_place_route:
  fixes place :: string and cycle :: real
  defines "loc \<equiv> \<lparr>name = place, latitude = 40.7128, longitude = - 74.0060\<rparr>"
  defines "self' \<equiv> \<lparr>current_cycle_used = cycle, location_cache = [place \<mapsto> loc]\<rparr>"
  assumes "stdout (''Geocoding failed for '' @ [CHR 0x27] @ place @ [CHR 0x27] @ '': '' @ e)"
  shows "calculate_route (\<lambda>s. RequestFailed e) stdout fmt now
      \<lparr>current_cycle_used = 0, location_cache = Map.empty\<rparr> place place place cycle =
   Inr (\<lparr>total_distance = 0,
         total_time = calculate_total_time (generate_duty_schedule self' now loc loc loc 0 0 []),
         fueling_stops = [],
         duty_schedule = generate_duty_schedule self' now loc loc loc 0 0 [],
         violations = check_violations (generate_duty_schedule self' now loc loc loc 0 0 [])\<rparr>,
        self')"
proof -
  have 1: "parse_location (\<lambda>s. RequestFailed e) stdout
             (\<lparr>current_cycle_used = 0, location_cache = Map.empty\<rparr>\<lparr>current_cycle_used := cycle\<rparr>)
             place = Inr (loc, self')"
    unfolding loc_def self'_def using assms(3) by (rule parse_location_failed)
  have 2: "parse_location (\<lambda>s. RequestFailed e) stdout self' place = Inr (loc, self')"
    by (rule parse_location_cached) (simp add: self'_def)
  show ?thesis
    using calculate_route_unfold [OF 1 2 2 calculate_fueling_stops_same [of fmt loc], of now]
    by (simp add: calculate_distance_same)
qed

text \<open>The line printed for Chicago has no surrogate.\<close>

lemma chicago_line:
  "utf8_stdout (''Geocoding failed for '' @ [CHR 0x27] @ ''Chicago'' @ [CHR 0x27] @ '': '' @
     ''timed out'')"
  by (simp add: utf8_stdout_def)

lemma add_driving_segment_Nil:
  "add_driving_segment start end_loc distance start_time cumulative_driving cumulative_duty [] =
     (if 8 \<le> cumulative_driving then
        [\<lparr>location = start, arrival_time = start_time, departure_time = start_time + 1 / 2,
          status = ''Off Duty'', miles_from_start = 0,
          cumulative_driving_hours = cumulative_driving,
          cumulative_duty_hours = cumulative_duty\<rparr>,
         \<lparr>location = end_loc, arrival_time = start_time + 1 / 2 + distance / 55,
          departure_time = start_time + 1 / 2 + distance / 55, status = ''Driving'',
          miles_from_start = distance, cumulative_driving_hours = distance / 55,
          cumulative_duty_hours = cumulative_duty + 1 / 2 + distance / 55\<rparr>]
      else
        [\<lparr>location = end_loc, arrival_time = start_time + distance / 55,
          departure_time = start_time + distance / 55, status = ''Driving'',
          miles_from_start = distance,
          cumulative_driving_hours = cumulative_driving + distance / 55,
          cumulative_duty_hours = cumulative_duty + distance / 55\<rparr>])"
  by (simp add: add_driving_segment_def break_check_def Let_def hos_constants
      calculate_drive_time_def)

lemma add_driving_segment_Nil_status:
  "\<forall>p \<in> set (add_driving_segment start end_loc distance start_time cumulative_driving
       cumulative_duty []). status p \<noteq> ''On Duty''"
  by (simp add: add_driving_segment_Nil)

lemma calculate_distance_half_turn:
  "calculate_distance \<lparr>name = a, latitude = 0, longitude = 0\<rparr>
     \<lparr>name = b, latitude = 0, longitude = 180\<rparr> = 3959 * pi"
  by (simp add: calculate_distance_def haversine_a_def radians_def atan2_def)

lemma parse_null_island:
  "parse_location example_net stdout
     (\<lparr>current_cycle_used = 0, location_cache = Map.empty\<rparr>\<lparr>current_cycle_used := c\<rparr>)
     ''Null Island'' =
   Inr (null_island,
        \<lparr>current_cycle_used = c, location_cache = [''Null Island'' \<mapsto> null_island]\<rparr>)"
  by (simp add: parse_location_def geocode_location_def Let_def)

lemma parse_null_island_again:
  "parse_location example_net stdout
     \<lparr>current_cycle_used = c, location_cache = [''Null Island'' \<mapsto> null_island]\<rparr>
     ''Null Island'' =
   Inr (null_island,
        \<lparr>current_cycle_used = c, location_cache = [''Null Island'' \<mapsto> null_island]\<rparr>)"
  by (simp add: parse_location_def)

lemma parse_antimeridian:
  "parse_location example_net stdout
     \<lparr>current_cycle_used = c, location_cache = [''Null Island'' \<mapsto> null_island]\<rparr>
     ''Antimeridian'' =
   Inr (antimeridian,
        \<lparr>current_cycle_used = c,
          location_cache =
            [''Null Island'' \<mapsto> null_island, ''Antimeridian'' \<mapsto> antimeridian]\<rparr>)"
  by (simp add: parse_location_def geocode_location_def Let_def)

text \<open>
  The \<^verbatim>\<open>Driving\<close> point of the second leg carries the length of the second leg as its
  \<^verbatim>\<open>miles_from_start\<close>, here 55 after the 110 of the pickup point.
\<close>

lemma second_leg_miles_restart:
  "\<not> miles_nondecreasing
       (generate_duty_schedule \<lparr>current_cycle_used = 0, location_cache = Map.empty\<rparr> 0
          springfield peoria springfield 110 55 [])"
  by (simp add: generate_duty_schedule_unfold add_driving_segment_Nil)

text \<open>
  Where the handler's \<^verbatim>\<open>print\<close> goes through, and where the handler is not entered,
  \<^verbatim>\<open>geocode_location\<close> returns: the default pair for a failed lookup and for an empty
  answer.
\<close>

lemma geocode_location_printed:
  assumes "geocode_try (net location_str) = Inl e"
    and "stdout (''Geocoding failed for '' @ [CHR 0x27] @ location_str @ [CHR 0x27] @
                 '': '' @ e)"
  shows "geocode_location net stdout location_str = Inr (40.7128, - 74.0060)"
  using assms by (simp add: geocode_location_def default_coordinates_def)

lemma geocode_location_empty:
  "net location_str = Json [] \<Longrightarrow>
   geocode_location net stdout location_str = Inr (40.7128, - 74.0060)"
  by (simp add: geocode_location_def default_coordinates_def)

text \<open>The line printed for a name with a surrogate is not taken by a UTF-8 stream.\<close>

lemma surrogate_line:
  "\<not> utf8_stdout (''Geocoding failed for '' @ [CHR 0x27] @ [CHR 0xED, CHR 0xA0, CHR 0x80] @
       [CHR 0x27] @ '': '' @ e)"
  by (simp add: utf8_stdout_def)


text \<open>Three times the same place, its lookup timing out.\<close>

lemma chicago_route:
  "calculate_route (\<lambda>s. RequestFailed ''timed out'') utf8_stdout fmt now
      \<lparr>current_cycle_used = 0, location_cache = Map.empty\<rparr>
      ''Chicago'' ''Chicago'' ''Chicago'' cycle =
   Inr (\<lparr>total_distance = 0,
         total_time =
           calculate_total_time
             (generate_duty_schedule
                \<lparr>current_cycle_used = cycle,
                  location_cache = [''Chicago'' \<mapsto> unresolved_chicago]\<rparr>
                now unresolved_chicago unresolved_chicago unresolved_chicago 0 0 []),
         fueling_stops = [],
         duty_schedule =
           generate_duty_schedule
             \<lparr>current_cycle_used = cycle,
               location_cache = [''Chicago'' \<mapsto> unresolved_chicago]\<rparr>
             now unresolved_chicago unresolved_chicago unresolved_chicago 0 0 [],
         violations =
           check_violations
             (generate_duty_schedule
                \<lparr>current_cycle_used = cycle,
                  location_cache = [''Chicago'' \<mapsto> unresolved_chicago]\<rparr>
                now unresolved_chicago unresolved_chicago unresolved_chicago 0 0 [])\<rparr>,
        \<lparr>current_cycle_used = cycle,
          location_cache = [''Chicago'' \<mapsto> unresolved_chicago]\<rparr>)"
  by (rule same_place_route) (rule chicago_line)

section \<open>Claims\<close>

text \<open>
  Claim C1: in the schedule of every \<^verbatim>\<open>calculate_route\<close> call each segment departs no
  earlier than it arrives and arrives no earlier than the segment before it departs, and
  \<^verbatim>\<open>miles_from_start\<close> never decreases.

  The code does not keep this. \<^verbatim>\<open>_generate_duty_schedule\<close> assigns
  \<^verbatim>\<open>departure_time\<close> the departure from the dropoff before it passes
  \<^verbatim>\<open>departure_time\<close> to the second leg as its start time, so the second leg's
  \<^verbatim>\<open>Driving\<close> point is stamped later than the arrival of the dropoff point that follows
  it. For three equal place names and no hours used, the call returns a schedule in which
  the \<^verbatim>\<open>Driving\<close> point of the second leg departs at hour 2 and the dropoff point arrives
  at hour 1.
\<close>

theorem schedule_timestamps_decrease_at_dropoff:
  "\<exists>r. calculate_hos_route (\<lambda>s. RequestFailed ''timed out'') utf8_stdout (\<lambda>x. ''0.00'') 0
          ''Chicago'' ''Chicago'' ''Chicago'' 0 = Inr r \<and>
       \<not> timestamps_nondecreasing (duty_schedule r)"
  by (simp add: calculate_hos_route_def chicago_route
      generate_duty_schedule_unfold add_driving_segment_Nil)

text \<open>
  Claim C10: every segment of the schedule returned by \<^verbatim>\<open>calculate_route\<close> has the
  status \<^verbatim>\<open>Off Duty\<close>, \<^verbatim>\<open>On Duty\<close> or \<^verbatim>\<open>Driving\<close>; none has the status
  \<^verbatim>\<open>Sleeper\<close>. The hypothesis names the result \<open>r\<close> that the call returns.
\<close>

theorem schedule_status_never_sleeper:
  assumes "calculate_route net stdout fmt now self current_location pickup_location
             dropoff_location cycle = Inr (r, self')"
  shows "\<forall>p \<in> set (duty_schedule r).
     (status p = ''Off Duty'' \<or> status p = ''On Duty'' \<or> status p = ''Driving'') \<and>
     status p \<noteq> ''Sleeper''"
proof -
  obtain s current pickup dropoff where
    eq: "duty_schedule r =
     generate_duty_schedule s now current pickup dropoff (calculate_distance current pickup)
       (calculate_distance pickup dropoff) (fueling_stops r)"
    using calculate_route_schedule [OF assms] by blast
  show ?thesis
    unfolding eq
    using generate_duty_schedule_status [of s now current pickup dropoff
        "calculate_distance current pickup" "calculate_distance pickup dropoff"
        "fueling_stops r"]
    by auto
qed

theorem schedule_status_never_sleeper_witness:
  "\<exists>r self'.
     calculate_route (\<lambda>s. RequestFailed ''timed out'') utf8_stdout (\<lambda>x. ''0.00'') 0
       \<lparr>current_cycle_used = 0, location_cache = Map.empty\<rparr>
       ''Chicago'' ''Chicago'' ''Chicago'' 12 = Inr (r, self') \<and>
     duty_schedule r \<noteq> [] \<and>
     status (last (duty_schedule r)) \<noteq> ''Sleeper''"
proof -
  obtain r self' where
    route: "calculate_route (\<lambda>s. RequestFailed ''timed out'') utf8_stdout (\<lambda>x. ''0.00'') 0
       \<lparr>current_cycle_used = 0, location_cache = Map.empty\<rparr>
       ''Chicago'' ''Chicago'' ''Chicago'' 12 = Inr (r, self')"
    and schedule: "duty_schedule r \<noteq> []"
    by (simp add: chicago_route generate_duty_schedule_unfold)
  from schedule have "last (duty_schedule r) \<in> set (duty_schedule r)"
    by (rule last_in_set)
  then have "status (last (duty_schedule r)) \<noteq> ''Sleeper''"
    using schedule_status_never_sleeper [OF route] by blast
  then show ?thesis
    using route schedule by blast
qed

text \<open>
  Claim C9: for \<^verbatim>\<open>current_cycle_used >= 0\<close>, every segment of the schedule returned by
  \<^verbatim>\<open>calculate_route\<close> has cumulative driving hours no larger than its cumulative duty
  hours. The second hypothesis names the result \<open>r\<close> that the call returns.
\<close>

theorem driving_hours_le_duty_hours:
  assumes "0 \<le> cycle"
    and "calculate_route net stdout fmt now self current_location pickup_location
           dropoff_location cycle = Inr (r, self')"
  shows "\<forall>p \<in> set (duty_schedule r). cumulative_driving_hours p \<le> cumulative_duty_hours p"
proof -
  obtain s current pickup dropoff where
    eq: "duty_schedule r =
     generate_duty_schedule s now current pickup dropoff (calculate_distance current pickup)
       (calculate_distance pickup dropoff) (fueling_stops r)"
    using calculate_route_schedule [OF assms(2)] by blast
  show ?thesis
    unfolding eq by (rule generate_duty_schedule_driving_le_duty)
qed

theorem driving_hours_le_duty_hours_witness:
  "\<exists>r self'.
     calculate_route (\<lambda>s. RequestFailed ''timed out'') utf8_stdout (\<lambda>x. ''0.00'') 0
       \<lparr>current_cycle_used = 0, location_cache = Map.empty\<rparr>
       ''Chicago'' ''Chicago'' ''Chicago'' 12 = Inr (r, self') \<and>
     2 < length (duty_schedule r) \<and>
     cumulative_driving_hours (duty_schedule r ! 2) \<le>
       cumulative_duty_hours (duty_schedule r ! 2)"
proof -
  obtain r self' where
    route: "calculate_route (\<lambda>s. RequestFailed ''timed out'') utf8_stdout (\<lambda>x. ''0.00'') 0
       \<lparr>current_cycle_used = 0, location_cache = Map.empty\<rparr>
       ''Chicago'' ''Chicago'' ''Chicago'' 12 = Inr (r, self')"
    and schedule: "2 < length (duty_schedule r)"
    by (simp add: chicago_route generate_duty_schedule_unfold
        add_driving_segment_Nil)
  have "(0 :: real) \<le> 12"
    by simp
  moreover from schedule have "duty_schedule r ! 2 \<in> set (duty_schedule r)"
    by (rule nth_mem)
  ultimately have "cumulative_driving_hours (duty_schedule r ! 2) \<le>
       cumulative_duty_hours (duty_schedule r ! 2)"
    using driving_hours_le_duty_hours [OF _ route] by blast
  then show ?thesis
    using route schedule by blast
qed

text \<open>
  Claim C2: the second leg, from pickup to dropoff, is scheduled without fuel stops. Once
  the three places are resolved, \<^verbatim>\<open>calculate_route\<close> returns, and the schedule is the
  start point, the first leg built with the computed fuel-stop list, the pickup point, the
  second leg built with the empty list, the dropoff point, and what follows it; no point of
  the second leg has the status \<^verbatim>\<open>On Duty\<close>, whatever the distance from pickup to
  dropoff. The three hypotheses name the locations that \<^verbatim>\<open>calculate_route\<close> resolves.
\<close>

theorem second_leg_without_fuel_stops:
  assumes "parse_location net stdout (self\<lparr>current_cycle_used := cycle\<rparr>) current_location =
           Inr (current, self1)"
    and "parse_location net stdout self1 pickup_location = Inr (pickup, self2)"
    and "parse_location net stdout self2 dropoff_location = Inr (dropoff, self3)"
  shows
    "\<exists>r. calculate_route net stdout fmt now self current_location pickup_location
            dropoff_location cycle = Inr (r, self3) \<and>
       (let d1 = calculate_distance current pickup;
            d2 = calculate_distance pickup dropoff;
            leg1 = add_driving_segment current pickup d1 now cycle cycle (fueling_stops r);
            leg2 = add_driving_segment pickup dropoff d2 (now + d1 / 55 + 1 + d2 / 55 + 1)
                     (cycle + d1 / 55) (cycle + d1 / 55 + 1) []
        in (\<exists>start_point pickup_point dropoff_point rest.
              duty_schedule r =
                start_point # leg1 @ pickup_point # leg2 @ dropoff_point # rest \<and>
              location pickup_point = pickup \<and> status pickup_point = ''On Duty'' \<and>
              location dropoff_point = dropoff \<and> status dropoff_point = ''On Duty'') \<and>
           (\<forall>p \<in> set leg2. status p \<noteq> ''On Duty''))"
proof -
  have cycle: "current_cycle_used self3 = cycle"
    using assms by (rule calculate_route_cycle)
  obtain stops where
    route: "calculate_route net stdout fmt now self current_location pickup_location
       dropoff_location cycle =
     Inr (\<lparr>total_distance = calculate_distance current pickup + calculate_distance pickup dropoff,
           total_time =
             calculate_total_time
               (generate_duty_schedule self3 now current pickup dropoff
                  (calculate_distance current pickup) (calculate_distance pickup dropoff) stops),
           fueling_stops = stops,
           duty_schedule =
             generate_duty_schedule self3 now current pickup dropoff
               (calculate_distance current pickup) (calculate_distance pickup dropoff) stops,
           violations =
             check_violations
               (generate_duty_schedule self3 now current pickup dropoff
                  (calculate_distance current pickup) (calculate_distance pickup dropoff)
                  stops)\<rparr>,
          self3)"
    using calculate_route_returns [OF assms, of fmt now] by blast
  show ?thesis
    unfolding route
    by (simp add: Let_def generate_duty_schedule_unfold cycle add_driving_segment_Nil_status)
qed

theorem second_leg_without_fuel_stops_witness:
  "1000 < calculate_distance null_island antimeridian \<and>
   status (last (add_driving_segment null_island antimeridian
       (calculate_distance null_island antimeridian)
       (0 + calculate_distance null_island null_island / 55 + 1 +
        calculate_distance null_island antimeridian / 55 + 1)
       (0 + calculate_distance null_island null_island / 55)
       (0 + calculate_distance null_island null_island / 55 + 1) [])) \<noteq> ''On Duty''"
proof -
  have "2 \<le> pi"
    by (rule pi_ge_two)
  then have far: "1000 < calculate_distance null_island antimeridian"
    by (simp add: calculate_distance_half_turn)
  have "last (add_driving_segment null_island antimeridian
       (calculate_distance null_island antimeridian)
       (0 + calculate_distance null_island null_island / 55 + 1 +
        calculate_distance null_island antimeridian / 55 + 1)
       (0 + calculate_distance null_island null_island / 55)
       (0 + calculate_distance null_island null_island / 55 + 1) [])
     \<in> set (add_driving_segment null_island antimeridian
       (calculate_distance null_island antimeridian)
       (0 + calculate_distance null_island null_island / 55 + 1 +
        calculate_distance null_island antimeridian / 55 + 1)
       (0 + calculate_distance null_island null_island / 55)
       (0 + calculate_distance null_island null_island / 55 + 1) [])"
    by (rule last_in_set) (simp add: add_driving_segment_Nil)
  then show ?thesis
    using far
      second_leg_without_fuel_stops [OF parse_null_island [where c = 0]
        parse_null_island_again parse_antimeridian,
        where stdout = utf8_stdout and fmt = "\<lambda>x. ''0.00''" and now = 0]
    unfolding Let_def by blast
qed

text \<open>
  Claim C4: on entry to a leg with at least 8 accumulated driving hours, the leg starts with
  one \<^verbatim>\<open>Off Duty\<close> point of half an hour at the leg's starting location and goes on as
  a leg entered half an hour later with 0 driving hours and half an hour more of duty; no
  later point of the leg is \<^verbatim>\<open>Off Duty\<close>, and a leg entered with fewer than 8 driving
  hours has no \<^verbatim>\<open>Off Duty\<close> point at all.
\<close>

theorem break_on_entry_to_leg:
  "(8 \<le> cumulative_driving \<longrightarrow>
      add_driving_segment start end_loc distance start_time cumulative_driving
        cumulative_duty stops =
      \<lparr>location = start, arrival_time = start_time, departure_time = start_time + 1 / 2,
        status = ''Off Duty'', miles_from_start = 0,
        cumulative_driving_hours = cumulative_driving,
        cumulative_duty_hours = cumulative_duty\<rparr> #
      add_driving_segment start end_loc distance (start_time + 1 / 2) 0
        (cumulative_duty + 1 / 2) stops \<and>
      (\<forall>p \<in> set (add_driving_segment start end_loc distance (start_time + 1 / 2) 0
           (cumulative_duty + 1 / 2) stops). status p \<noteq> ''Off Duty'')) \<and>
   (cumulative_driving < 8 \<longrightarrow>
      (\<forall>p \<in> set (add_driving_segment start end_loc distance start_time cumulative_driving
           cumulative_duty stops). status p \<noteq> ''Off Duty''))"
  using add_driving_segment_break [of cumulative_driving start end_loc distance start_time
      cumulative_duty stops]
    add_driving_segment_no_break [of 0 start end_loc distance "start_time + 1 / 2"
      "cumulative_duty + 1 / 2" stops]
    add_driving_segment_no_break [of cumulative_driving start end_loc distance start_time
      cumulative_duty stops]
  by simp

theorem break_on_entry_to_leg_witness:
  "(8 :: real) \<le> 9 \<and> (3 :: real) < 8 \<and>
   add_driving_segment springfield peoria 110 0 9 10 [] =
     [\<lparr>location = springfield, arrival_time = 0, departure_time = 1 / 2, status = ''Off Duty'',
       miles_from_start = 0, cumulative_driving_hours = 9, cumulative_duty_hours = 10\<rparr>,
      \<lparr>location = peoria, arrival_time = 5 / 2, departure_time = 5 / 2, status = ''Driving'',
       miles_from_start = 110, cumulative_driving_hours = 2,
       cumulative_duty_hours = 25 / 2\<rparr>] \<and>
   status (last (add_driving_segment springfield peoria 110 0 3 4 [])) \<noteq> ''Off Duty''"
proof -
  have "last (add_driving_segment springfield peoria 110 0 3 4 [])
      \<in> set (add_driving_segment springfield peoria 110 0 3 4 [])"
    by (rule last_in_set) (simp add: add_driving_segment_Nil)
  moreover have "add_driving_segment springfield peoria 110 (0 + 1 / 2) 0 (10 + 1 / 2) [] =
      [\<lparr>location = peoria, arrival_time = 5 / 2, departure_time = 5 / 2, status = ''Driving'',
       miles_from_start = 110, cumulative_driving_hours = 2,
       cumulative_duty_hours = 25 / 2\<rparr>]"
    by (simp add: add_driving_segment_Nil)
  ultimately show ?thesis
    using break_on_entry_to_leg [of 9 springfield peoria 110 0 10 "[]"]
      break_on_entry_to_leg [of 3 springfield peoria 110 0 4 "[]"]
    by simp
qed

text \<open>
  Claim C3: after the dropoff point, if the cumulative driving hours are at least 11 or the
  cumulative duty hours at least 14, the schedule ends with one more point: \<^verbatim>\<open>Off Duty\<close>,
  at the dropoff location, 10 hours long, with both cumulative counters 0. Otherwise the
  schedule ends with the dropoff point. The points before it are the same in both cases and
  keep their counters, and none of them lasts 10 hours. Once the three places are resolved,
  \<^verbatim>\<open>calculate_route\<close> returns such a schedule.
\<close>

theorem mandatory_rest_after_dropoff:
  assumes "parse_location net stdout (self\<lparr>current_cycle_used := cycle\<rparr>) current_location =
           Inr (current, self1)"
    and "parse_location net stdout self1 pickup_location = Inr (pickup, self2)"
    and "parse_location net stdout self2 dropoff_location = Inr (dropoff, self3)"
  shows
    "\<exists>r. calculate_route net stdout fmt now self current_location pickup_location
            dropoff_location cycle = Inr (r, self3) \<and>
       (let d1 = calculate_distance current pickup;
            d2 = calculate_distance pickup dropoff;
            start_point =
              \<lparr>location = current, arrival_time = now, departure_time = now,
                status = ''Off Duty'', miles_from_start = 0, cumulative_driving_hours = cycle,
                cumulative_duty_hours = cycle\<rparr>;
            leg1 = add_driving_segment current pickup d1 now cycle cycle (fueling_stops r);
            pickup_point =
              \<lparr>location = pickup, arrival_time = now + d1 / 55,
                departure_time = now + d1 / 55 + 1, status = ''On Duty'',
                miles_from_start = d1, cumulative_driving_hours = cycle + d1 / 55,
                cumulative_duty_hours = cycle + d1 / 55 + 1\<rparr>;
            leg2 = add_driving_segment pickup dropoff d2 (now + d1 / 55 + 1 + d2 / 55 + 1)
                     (cycle + d1 / 55) (cycle + d1 / 55 + 1) [];
            dropoff_point =
              \<lparr>location = dropoff, arrival_time = now + d1 / 55 + 1 + d2 / 55,
                departure_time = now + d1 / 55 + 1 + d2 / 55 + 1, status = ''On Duty'',
                miles_from_start = d1 + d2,
                cumulative_driving_hours = cycle + d1 / 55 + d2 / 55,
                cumulative_duty_hours = cycle + d1 / 55 + 1 + d2 / 55 + 1\<rparr>;
            rest_point =
              \<lparr>location = dropoff, arrival_time = departure_time dropoff_point,
                departure_time = departure_time dropoff_point + 10, status = ''Off Duty'',
                miles_from_start = d1 + d2, cumulative_driving_hours = 0,
                cumulative_duty_hours = 0\<rparr>;
            earlier = start_point # leg1 @ pickup_point # leg2 @ [dropoff_point]
        in duty_schedule r =
             earlier @
             (if 11 \<le> cumulative_driving_hours dropoff_point \<or>
                 14 \<le> cumulative_duty_hours dropoff_point
              then [rest_point] else []) \<and>
           (\<forall>p \<in> set earlier. departure_time p - arrival_time p < 10))"
proof -
  have cycle: "current_cycle_used self3 = cycle"
    using assms by (rule calculate_route_cycle)
  have short: "departure_time p - arrival_time p < 10"
    if "p \<in> set (add_driving_segment start end_loc distance start_time cumulative_driving
       cumulative_duty stops)"
    for p start end_loc distance start_time cumulative_driving cumulative_duty stops
    using add_driving_segment_duration that by fastforce
  obtain stops where
    route: "calculate_route net stdout fmt now self current_location pickup_location
       dropoff_location cycle =
     Inr (\<lparr>total_distance = calculate_distance current pickup + calculate_distance pickup dropoff,
           total_time =
             calculate_total_time
               (generate_duty_schedule self3 now current pickup dropoff
                  (calculate_distance current pickup) (calculate_distance pickup dropoff) stops),
           fueling_stops = stops,
           duty_schedule =
             generate_duty_schedule self3 now current pickup dropoff
               (calculate_distance current pickup) (calculate_distance pickup dropoff) stops,
           violations =
             check_violations
               (generate_duty_schedule self3 now current pickup dropoff
                  (calculate_distance current pickup) (calculate_distance pickup dropoff)
                  stops)\<rparr>,
          self3)"
    using calculate_route_returns [OF assms, of fmt now] by blast
  show ?thesis
    unfolding route
    by (auto simp: Let_def generate_duty_schedule_unfold cycle short)
qed

theorem mandatory_rest_after_dropoff_witness:
  "(\<exists>r self'.
      calculate_route (\<lambda>s. RequestFailed ''timed out'') utf8_stdout (\<lambda>x. ''0.00'') 0
        \<lparr>current_cycle_used = 0, location_cache = Map.empty\<rparr>
        ''Chicago'' ''Chicago'' ''Chicago'' 12 = Inr (r, self') \<and>
      last (duty_schedule r) =
        \<lparr>location = unresolved_chicago, arrival_time = 2, departure_time = 12,
          status = ''Off Duty'', miles_from_start = 0, cumulative_driving_hours = 0,
          cumulative_duty_hours = 0\<rparr>) \<and>
   (\<exists>r self'.
      calculate_route (\<lambda>s. RequestFailed ''timed out'') utf8_stdout (\<lambda>x. ''0.00'') 0
        \<lparr>current_cycle_used = 0, location_cache = Map.empty\<rparr>
        ''Chicago'' ''Chicago'' ''Chicago'' 0 = Inr (r, self') \<and>
      last (duty_schedule r) =
        \<lparr>location = unresolved_chicago, arrival_time = 1, departure_time = 2,
          status = ''On Duty'', miles_from_start = 0, cumulative_driving_hours = 0,
          cumulative_duty_hours = 2\<rparr>)"
proof -
  have first: "parse_location (\<lambda>s. RequestFailed ''timed out'') utf8_stdout
      (\<lparr>current_cycle_used = 0, location_cache = Map.empty\<rparr>\<lparr>current_cycle_used := c\<rparr>)
      ''Chicago'' =
      Inr (unresolved_chicago,
           \<lparr>current_cycle_used = c, location_cache = [''Chicago'' \<mapsto> unresolved_chicago]\<rparr>)"
    for c
    by (rule parse_location_failed) (rule chicago_line)
  have again: "parse_location (\<lambda>s. RequestFailed ''timed out'') utf8_stdout
      \<lparr>current_cycle_used = c, location_cache = [''Chicago'' \<mapsto> unresolved_chicago]\<rparr>
      ''Chicago'' =
      Inr (unresolved_chicago,
           \<lparr>current_cycle_used = c, location_cache = [''Chicago'' \<mapsto> unresolved_chicago]\<rparr>)"
    for c
    by (rule parse_location_cached) simp
  show ?thesis
    using mandatory_rest_after_dropoff [OF first [of 12] again again,
        where fmt = "\<lambda>x. ''0.00''" and now = 0]
      mandatory_rest_after_dropoff [OF first [of 0] again again,
        where fmt = "\<lambda>x. ''0.00''" and now = 0]
    by (auto simp: Let_def calculate_distance_same)
qed

text \<open>
  Claim C7: \<^verbatim>\<open>calculate_route\<close> seeds the cumulative driving hours and the cumulative duty
  hours with \<^verbatim>\<open>current_cycle_used\<close>: the start point carries the value in both fields and
  the first leg is entered with it in both counters. For \<^verbatim>\<open>current_cycle_used = 70\<close> and
  a first leg of nonzero distance, the first \<^verbatim>\<open>Driving\<close> point of the schedule, the
  arrival at the pickup, has more than 70 cumulative duty hours, and the violations contain
  the 70-hour/8-day message for it. Once the three places are resolved,
  \<^verbatim>\<open>calculate_route\<close> returns such a result.
\<close>

theorem cycle_hours_seed_counters:
  assumes "parse_location net stdout (self\<lparr>current_cycle_used := cycle\<rparr>) current_location =
           Inr (current, self1)"
    and "parse_location net stdout self1 pickup_location = Inr (pickup, self2)"
    and "parse_location net stdout self2 dropoff_location = Inr (dropoff, self3)"
  shows
    "\<exists>r. calculate_route net stdout fmt now self current_location pickup_location
            dropoff_location cycle = Inr (r, self3) \<and>
       (\<exists>rest.
          duty_schedule r =
            \<lparr>location = current, arrival_time = now, departure_time = now,
              status = ''Off Duty'', miles_from_start = 0, cumulative_driving_hours = cycle,
              cumulative_duty_hours = cycle\<rparr> #
            add_driving_segment current pickup (calculate_distance current pickup) now
              cycle cycle (fueling_stops r) @ rest) \<and>
       (cycle = 70 \<and> calculate_distance current pickup \<noteq> 0 \<longrightarrow>
          (\<exists>before p after.
             duty_schedule r = before @ p # after \<and>
             (\<forall>q \<in> set before. status q \<noteq> ''Driving'') \<and>
             status p = ''Driving'' \<and> location p = pickup \<and>
             70 < cumulative_duty_hours p \<and>
             ''Violation: Exceeded 70-hour/8-day limit at '' @ name (location p)
               \<in> set (violations r)))"
proof -
  let ?d1 = "calculate_distance current pickup"
  let ?d2 = "calculate_distance pickup dropoff"
  obtain stops where
    route: "calculate_route net stdout fmt now self current_location pickup_location
       dropoff_location cycle =
     Inr (\<lparr>total_distance = ?d1 + ?d2,
           total_time =
             calculate_total_time
               (generate_duty_schedule self3 now current pickup dropoff ?d1 ?d2 stops),
           fueling_stops = stops,
           duty_schedule = generate_duty_schedule self3 now current pickup dropoff ?d1 ?d2 stops,
           violations =
             check_violations
               (generate_duty_schedule self3 now current pickup dropoff ?d1 ?d2 stops)\<rparr>,
          self3)"
    using calculate_route_returns [OF assms, of fmt now] by blast
  let ?schedule = "generate_duty_schedule self3 now current pickup dropoff ?d1 ?d2 stops"
  have cycle: "current_cycle_used self3 = cycle"
    using assms by (rule calculate_route_cycle)
  have seeded: "\<exists>rest.
      ?schedule =
        \<lparr>location = current, arrival_time = now, departure_time = now,
          status = ''Off Duty'', miles_from_start = 0, cumulative_driving_hours = cycle,
          cumulative_duty_hours = cycle\<rparr> #
        add_driving_segment current pickup ?d1 now cycle cycle stops @ rest"
    by (simp add: generate_duty_schedule_unfold cycle)
  have violated: "\<exists>before p after.
      ?schedule = before @ p # after \<and>
      (\<forall>q \<in> set before. status q \<noteq> ''Driving'') \<and>
      status p = ''Driving'' \<and> location p = pickup \<and>
      70 < cumulative_duty_hours p \<and>
      ''Violation: Exceeded 70-hour/8-day limit at '' @ name (location p)
        \<in> set (check_violations ?schedule)"
    if "cycle = 70"
  proof -
    obtain before p where
      leg: "add_driving_segment current pickup ?d1 now cycle cycle stops = before @ [p]"
      and before: "\<forall>q \<in> set before. status q \<noteq> ''Driving''"
      and p: "status p = ''Driving''" "location p = pickup"
      and duty: "(if 8 \<le> cycle then cycle + 1 / 2 else cycle) + ?d1 / 55
                   \<le> cumulative_duty_hours p"
      using add_driving_segment_arrival [of current pickup ?d1 now cycle cycle stops]
      by blast
    obtain rest where
      schedule: "?schedule =
        (\<lparr>location = current, arrival_time = now, departure_time = now,
          status = ''Off Duty'', miles_from_start = 0, cumulative_driving_hours = cycle,
          cumulative_duty_hours = cycle\<rparr> # before) @ p # rest"
      using seeded by (auto simp: leg)
    have "70 < cumulative_duty_hours p"
      using duty that calculate_distance_nonneg [of current pickup] by simp
    moreover from this have
      "''Violation: Exceeded 70-hour/8-day limit at '' @ name (location p)
         \<in> set (check_violations ?schedule)"
      by (rule point_violations_70) (simp add: schedule)
    ultimately show ?thesis
      using schedule before p
      by (intro exI [of _ "\<lparr>location = current, arrival_time = now, departure_time = now,
          status = ''Off Duty'', miles_from_start = 0, cumulative_driving_hours = cycle,
          cumulative_duty_hours = cycle\<rparr> # before"] exI [of _ p] exI [of _ rest]) simp
  qed
  show ?thesis
    unfolding route using seeded violated by simp
qed

theorem cycle_hours_seed_counters_witness:
  "calculate_distance null_island antimeridian \<noteq> 0 \<and>
   (\<exists>r self'.
      calculate_route example_net utf8_stdout (\<lambda>x. ''0.00'') 0
        \<lparr>current_cycle_used = 0, location_cache = Map.empty\<rparr>
        ''Null Island'' ''Antimeridian'' ''Antimeridian'' 70 = Inr (r, self') \<and>
      ''Violation: Exceeded 70-hour/8-day limit at Antimeridian'' \<in> set (violations r))"
proof -
  have again: "parse_location example_net utf8_stdout
      \<lparr>current_cycle_used = 70,
        location_cache = [''Null Island'' \<mapsto> null_island, ''Antimeridian'' \<mapsto> antimeridian]\<rparr>
      ''Antimeridian'' =
      Inr (antimeridian,
           \<lparr>current_cycle_used = 70,
             location_cache =
               [''Null Island'' \<mapsto> null_island, ''Antimeridian'' \<mapsto> antimeridian]\<rparr>)"
    by (rule parse_location_cached) simp
  have far: "calculate_distance null_island antimeridian \<noteq> 0"
    by (simp add: calculate_distance_half_turn)
  then show ?thesis
    using cycle_hours_seed_counters [OF parse_null_island [where c = 70] parse_antimeridian
        again, where fmt = "\<lambda>x. ''0.00''" and now = 0]
    by auto
qed

text \<open>
  Claim C6: the compliance checker looks at each point of the schedule on its own and
  appends, in the order of the schedule and without removing duplicates, one message for
  each limit the point strictly exceeds: more than 11 cumulative driving hours, more than 14
  cumulative duty hours, more than 70 cumulative duty hours. A point with 75 cumulative duty
  hours gets both the 14-hour and the 70-hour message.
\<close>

theorem compliance_checker_per_segment:
  "check_violations schedule =
     concat (map (\<lambda>point.
       (if 11 < cumulative_driving_hours point
        then [''Violation: Exceeded 11-hour driving limit at '' @ name (location point)]
        else []) @
       (if 14 < cumulative_duty_hours point
        then [''Violation: Exceeded 14-hour duty limit at '' @ name (location point)]
        else []) @
       (if 70 < cumulative_duty_hours point
        then [''Violation: Exceeded 70-hour/8-day limit at '' @ name (location point)]
        else [])) schedule) \<and>
   (p \<in> set schedule \<and> cumulative_duty_hours p = 75 \<longrightarrow>
      ''Violation: Exceeded 14-hour duty limit at '' @ name (location p)
        \<in> set (check_violations schedule) \<and>
      ''Violation: Exceeded 70-hour/8-day limit at '' @ name (location p)
        \<in> set (check_violations schedule))"
proof -
  have "point_violations =
      (\<lambda>point.
       (if 11 < cumulative_driving_hours point
        then [''Violation: Exceeded 11-hour driving limit at '' @ name (location point)]
        else []) @
       (if 14 < cumulative_duty_hours point
        then [''Violation: Exceeded 14-hour duty limit at '' @ name (location point)]
        else []) @
       (if 70 < cumulative_duty_hours point
        then [''Violation: Exceeded 70-hour/8-day limit at '' @ name (location point)]
        else []))"
    by (rule ext) (simp add: point_violations_def hos_constants)
  then have 1: "check_violations schedule =
     concat (map (\<lambda>point.
       (if 11 < cumulative_driving_hours point
        then [''Violation: Exceeded 11-hour driving limit at '' @ name (location point)]
        else []) @
       (if 14 < cumulative_duty_hours point
        then [''Violation: Exceeded 14-hour duty limit at '' @ name (location point)]
        else []) @
       (if 70 < cumulative_duty_hours point
        then [''Violation: Exceeded 70-hour/8-day limit at '' @ name (location point)]
        else [])) schedule)"
    by (simp add: check_violations_concat)
  have 2: "''Violation: Exceeded 14-hour duty limit at '' @ name (location p)
        \<in> set (check_violations schedule) \<and>
      ''Violation: Exceeded 70-hour/8-day limit at '' @ name (location p)
        \<in> set (check_violations schedule)"
    if "p \<in> set schedule" "cumulative_duty_hours p = 75"
    using that by (auto simp: check_violations_concat point_violations_def hos_constants)
  show ?thesis
    using 1 2 by blast
qed

theorem compliance_checker_per_segment_witness:
  "check_violations [overworked, overworked] =
     [''Violation: Exceeded 11-hour driving limit at Peoria'',
      ''Violation: Exceeded 14-hour duty limit at Peoria'',
      ''Violation: Exceeded 70-hour/8-day limit at Peoria'',
      ''Violation: Exceeded 11-hour driving limit at Peoria'',
      ''Violation: Exceeded 14-hour duty limit at Peoria'',
      ''Violation: Exceeded 70-hour/8-day limit at Peoria''] \<and>
   ''Violation: Exceeded 14-hour duty limit at Peoria''
     \<in> set (check_violations [overworked, overworked]) \<and>
   ''Violation: Exceeded 70-hour/8-day limit at Peoria''
     \<in> set (check_violations [overworked, overworked])"
  using compliance_checker_per_segment [of "[overworked, overworked]" overworked]
  by simp

text \<open>
  Claim C8: \<^verbatim>\<open>geocode_location\<close> never raises to its caller; on a lookup error or an
  empty result it returns the default pair \<open>(40.7128, -74.0060)\<close>.

  The code does not keep this. The \<^verbatim>\<open>except\<close> handler prints the place name before it
  returns the default pair, and \<^verbatim>\<open>print\<close> raises \<^verbatim>\<open>UnicodeEncodeError\<close> when the
  stream cannot encode the name. For the name \<^verbatim>\<open>'\ud800'\<close>, a lone surrogate, and a
  UTF-8 stream, every failed lookup ends in that exception, which leaves
  \<^verbatim>\<open>geocode_location\<close> and then \<^verbatim>\<open>calculate_route\<close>; for the name \<^verbatim>\<open>'Chicago'\<close> the
  same lookup error gives the default pair.
\<close>

theorem geocode_location_print_raises:
  "geocode_location (\<lambda>s. RequestFailed e) utf8_stdout [CHR 0xED, CHR 0xA0, CHR 0x80] =
     Inl UnicodeEncodeError \<and>
   calculate_route (\<lambda>s. RequestFailed e) utf8_stdout fmt now
       \<lparr>current_cycle_used = 0, location_cache = Map.empty\<rparr>
       [CHR 0xED, CHR 0xA0, CHR 0x80] pickup_location dropoff_location cycle =
     Inl UnicodeEncodeError \<and>
   geocode_location (\<lambda>s. RequestFailed ''timed out'') utf8_stdout ''Chicago'' =
     Inr (40.7128, - 74.0060)"
proof -
  have raised: "geocode_location (\<lambda>s. RequestFailed e) utf8_stdout
      [CHR 0xED, CHR 0xA0, CHR 0x80] = Inl UnicodeEncodeError"
    using surrogate_line [of e] by (simp add: geocode_location_def)
  then have "calculate_route (\<lambda>s. RequestFailed e) utf8_stdout fmt now
       \<lparr>current_cycle_used = 0, location_cache = Map.empty\<rparr>
       [CHR 0xED, CHR 0xA0, CHR 0x80] pickup_location dropoff_location cycle =
     Inl UnicodeEncodeError"
    by (simp add: calculate_route_def parse_location_def)
  moreover have "geocode_location (\<lambda>s. RequestFailed ''timed out'') utf8_stdout ''Chicago'' =
     Inr (40.7128, - 74.0060)"
    by (rule geocode_location_printed [where e = "''timed out''"], simp, rule chicago_line)
  ultimately show ?thesis
    using raised by simp
qed




end
